theory Spec2Isabelle
  imports Main "HOL-Library.Word"
begin

unbundle bit_operations_syntax

section \<open>The bus collaborator and the console\<close>

text \<open>
  The program (\<^verbatim>\<open>vl53l1x_wiringpi.c\<close>) talks to the sensor through three functions of
  the WiringPi library, \<^verbatim>\<open>wiringPiI2CWriteReg8\<close>, \<^verbatim>\<open>wiringPiI2CWrite\<close> and
  \<^verbatim>\<open>wiringPiI2CRead\<close>, and to the operator through \<^verbatim>\<open>printf\<close>. Every such call
  is recorded, in program order, in a log of events. The texts the program prints are not
  ASCII, so each \<^verbatim>\<open>printf\<close> of the source is one constructor of \<open>msg\<close>, carrying the
  integer arguments of the call. The wall-clock string of the sample line and the two
  floating-point renderings of the distance (centimetres, metres) are left out of
  \<open>MsgSample\<close>: they are functions of the clock and of the distance alone.
\<close>

datatype msg =
    MsgInit                   \<comment> \<open>line 78\<close>
  | MsgSensorFound int        \<comment> \<open>line 83, the model id\<close>
  | MsgUnknownSensor int      \<comment> \<open>line 85, the model id\<close>
  | MsgWaitFirmware           \<comment> \<open>line 96\<close>
  | MsgFirmwareLoaded int     \<comment> \<open>line 99, the attempt number\<close>
  | MsgFirmwareTimeout        \<comment> \<open>line 106\<close>
  | MsgSensorInitialized      \<comment> \<open>line 123\<close>
  | MsgSample int int         \<comment> \<open>lines 183-185: sample counter, distance in mm\<close>
  | MsgBarOpen                \<comment> \<open>line 190\<close>
  | MsgBar                    \<comment> \<open>line 192, one block of the bar\<close>
  | MsgVeryClose              \<comment> \<open>line 197\<close>
  | MsgClose                  \<comment> \<open>line 199\<close>
  | MsgNewline                \<comment> \<open>line 202\<close>
  | MsgBanner                 \<comment> \<open>lines 214-216\<close>
  | MsgWiringPiFailed         \<comment> \<open>line 220\<close>
  | MsgI2COpenFailed          \<comment> \<open>lines 227-237, the message and the wiring check list\<close>
  | MsgI2COpened int          \<comment> \<open>line 241, the descriptor\<close>
  | MsgSensorInitFailed       \<comment> \<open>line 245\<close>
  | MsgStartMeasuring         \<comment> \<open>lines 252-253\<close>
  | MsgWaiting int            \<comment> \<open>line 270, the number of skipped polls\<close>

datatype event =
    I2CWriteReg8 int int int  \<comment> \<open>descriptor, register byte, data byte\<close>
  | I2CWrite int int          \<comment> \<open>descriptor, data byte\<close>
  | I2CRead int int           \<comment> \<open>descriptor, the value the call returned\<close>
  | WiringPiSetup int         \<comment> \<open>the value the call returned\<close>
  | I2CSetup int int          \<comment> \<open>device address, the value the call returned\<close>
  | Usleep int
  | Printf msg

type_synonym world = "event list"

text \<open>
  The device at the other end of the bus is a parameter: it decides what
  \<^verbatim>\<open>wiringPiI2CRead\<close> returns, from everything that has happened so far. The return
  values of the two write calls are ignored by the program throughout.
\<close>

type_synonym device = "event list \<Rightarrow> int"

definition wiringPiI2CWriteReg8 :: "int \<Rightarrow> int \<Rightarrow> int \<Rightarrow> world \<Rightarrow> world" where
  "wiringPiI2CWriteReg8 fd reg data w = w @ [I2CWriteReg8 fd reg data]"

definition wiringPiI2CWrite :: "int \<Rightarrow> int \<Rightarrow> world \<Rightarrow> world" where
  "wiringPiI2CWrite fd data w = w @ [I2CWrite fd data]"

definition wiringPiI2CRead :: "device \<Rightarrow> int \<Rightarrow> world \<Rightarrow> int \<times> world" where
  "wiringPiI2CRead dev fd w = (dev w, w @ [I2CRead fd (dev w)])"

definition usleep :: "int \<Rightarrow> world \<Rightarrow> world" where
  "usleep us w = w @ [Usleep us]"

definition printf :: "msg \<Rightarrow> world \<Rightarrow> world" where
  "printf m w = w @ [Printf m]"

text \<open>What a call added to the log it was given.\<close>

definition emitted :: "world \<Rightarrow> world \<Rightarrow> event list" where
  "emitted w w' = drop (length w) w'"

definition bus_calls :: "event list \<Rightarrow> event list" where
  "bus_calls es = filter (\<lambda>e. case e of I2CWriteReg8 _ _ _ \<Rightarrow> True | I2CWrite _ _ \<Rightarrow> True
                                 | I2CRead _ _ \<Rightarrow> True | _ \<Rightarrow> False) es"

text \<open>The data bytes handed to \<^verbatim>\<open>wiringPiI2CWrite\<close>, in order.\<close>

definition data_bytes :: "event list \<Rightarrow> int list" where
  "data_bytes es = concat (map (\<lambda>e. case e of I2CWrite _ d \<Rightarrow> [d] | _ \<Rightarrow> []) es)"

section \<open>Registers\<close>

named_theorems regs

definition VL53L1X_ADDRESS :: int where [regs]: "VL53L1X_ADDRESS = 0x29"

definition SOFT_RESET :: "16 word" where [regs]: "SOFT_RESET = 0x0000"
definition FIRMWARE_SYSTEM_STATUS :: "16 word" where [regs]: "FIRMWARE_SYSTEM_STATUS = 0x0010"
definition IDENTIFICATION_MODEL_ID :: "16 word" where [regs]: "IDENTIFICATION_MODEL_ID = 0x010F"
definition SYSTEM_INTERRUPT_CLEAR :: "16 word" where [regs]: "SYSTEM_INTERRUPT_CLEAR = 0x0086"
definition SYSTEM_MODE_START :: "16 word" where [regs]: "SYSTEM_MODE_START = 0x0087"
definition GPIO_TIO_HV_STATUS :: "16 word" where [regs]: "GPIO_TIO_HV_STATUS = 0x0031"
definition RESULT_RANGE_STATUS :: "16 word" where [regs]: "RESULT_RANGE_STATUS = 0x0089"
definition RESULT_DISTANCE :: "16 word" where [regs]: "RESULT_DISTANCE = 0x0096"
definition RANGE_CONFIG_VCSEL_PERIOD_A :: "16 word" where [regs]: "RANGE_CONFIG_VCSEL_PERIOD_A = 0x0060"
definition RANGE_CONFIG_VCSEL_PERIOD_B :: "16 word" where [regs]: "RANGE_CONFIG_VCSEL_PERIOD_B = 0x0063"
definition RANGE_CONFIG_TIMEOUT_MACROP_A :: "16 word" where [regs]: "RANGE_CONFIG_TIMEOUT_MACROP_A = 0x005E"
definition RANGE_CONFIG_TIMEOUT_MACROP_B :: "16 word" where [regs]: "RANGE_CONFIG_TIMEOUT_MACROP_B = 0x0061"
definition RANGE_CONFIG_VALID_PHASE_HIGH :: "16 word" where [regs]: "RANGE_CONFIG_VALID_PHASE_HIGH = 0x0069"
definition SYSTEM_INTERRUPT_CONFIG_GPIO :: "16 word" where [regs]: "SYSTEM_INTERRUPT_CONFIG_GPIO = 0x0046"

section \<open>Register access\<close>

text \<open>
  \<^verbatim>\<open>unsigned short\<close> is \<open>16 word\<close>, \<^verbatim>\<open>unsigned char\<close> is \<open>8 word\<close>. In an
  expression C promotes both to \<^verbatim>\<open>int\<close>, which holds every value of either type, so
  the shifts and masks of the source are computed on \<open>uint\<close> of the operand. A result
  stored in an unsigned variable or returned as one is cut to its width by \<open>word_of_int\<close>.
\<close>

definition writeReg8 :: "int \<Rightarrow> 16 word \<Rightarrow> 8 word \<Rightarrow> world \<Rightarrow> world" where
  "writeReg8 fd reg val w =
     (let w1 = wiringPiI2CWriteReg8 fd (drop_bit 8 (uint reg) AND 0xFF) (uint reg AND 0xFF) w
      in wiringPiI2CWrite fd (uint val) w1)"

definition writeReg16 :: "int \<Rightarrow> 16 word \<Rightarrow> 16 word \<Rightarrow> world \<Rightarrow> world" where
  "writeReg16 fd reg val w =
     (let w1 = wiringPiI2CWriteReg8 fd (drop_bit 8 (uint reg) AND 0xFF) (uint reg AND 0xFF) w;
          w2 = wiringPiI2CWrite fd (drop_bit 8 (uint val) AND 0xFF) w1
      in wiringPiI2CWrite fd (uint val AND 0xFF) w2)"

definition readReg8 :: "device \<Rightarrow> int \<Rightarrow> 16 word \<Rightarrow> world \<Rightarrow> 8 word \<times> world" where
  "readReg8 dev fd reg w =
     (let w1 = wiringPiI2CWriteReg8 fd (drop_bit 8 (uint reg) AND 0xFF) (uint reg AND 0xFF) w;
          (r, w2) = wiringPiI2CRead dev fd w1
      in (word_of_int (r AND 0xFF), w2))"

definition readReg16 :: "device \<Rightarrow> int \<Rightarrow> 16 word \<Rightarrow> world \<Rightarrow> 16 word \<times> world" where
  "readReg16 dev fd reg w =
     (let w1 = wiringPiI2CWriteReg8 fd (drop_bit 8 (uint reg) AND 0xFF) (uint reg AND 0xFF) w;
          (r1, w2) = wiringPiI2CRead dev fd w1;
          high = (word_of_int (r1 AND 0xFF) :: 8 word);
          (r2, w3) = wiringPiI2CRead dev fd w2;
          low = (word_of_int (r2 AND 0xFF) :: 8 word)
      in (word_of_int (push_bit 8 (uint high) OR uint low), w3))"

section \<open>A register file as the device\<close>

text \<open>
  Modelled from the spec: the mock register file of the round-trip property is a test
  double, not part of the program. It is an array of bytes with an address pointer: the
  two bytes of \<^verbatim>\<open>wiringPiI2CWriteReg8\<close> set the pointer (high byte, low byte), a data
  write stores its byte at the pointer, a read returns the byte at the pointer, and both
  move the pointer to the next address. As a \<open>device\<close> it answers a read from the
  state that the log so far has left it in.
\<close>

record regfile =
  mem :: "int \<Rightarrow> int"
  ptr :: int

fun regfile_step :: "regfile \<Rightarrow> event \<Rightarrow> regfile" where
  "regfile_step rf (I2CWriteReg8 fd h l) = rf\<lparr>ptr := h * 256 + l\<rparr>"
| "regfile_step rf (I2CWrite fd d) = rf\<lparr>mem := (mem rf)(ptr rf := d), ptr := ptr rf + 1\<rparr>"
| "regfile_step rf (I2CRead fd r) = rf\<lparr>ptr := ptr rf + 1\<rparr>"
| "regfile_step rf _ = rf"

definition regfile_dev :: "regfile \<Rightarrow> device" where
  "regfile_dev rf0 w = (let rf = foldl regfile_step rf0 w in mem rf (ptr rf))"

section \<open>C integer arithmetic\<close>

text \<open>
  \<^verbatim>\<open>int\<close> is 32 bits wide on the program's target. The counters of \<^verbatim>\<open>main\<close> are
  incremented without bound, so their arithmetic is written with the wrap-around of a
  32-bit two's complement register (ISO C leaves signed overflow undefined; whatever a
  compiler does there, the variable holds a value of that range). Division and remainder
  truncate towards zero.
\<close>

definition wrap32 :: "int \<Rightarrow> int" where
  "wrap32 x = (x + 2 ^ 31) mod 2 ^ 32 - 2 ^ 31"

definition c_div :: "int \<Rightarrow> int \<Rightarrow> int" where
  "c_div a b = sgn a * sgn b * (\<bar>a\<bar> div \<bar>b\<bar>)"

definition c_mod :: "int \<Rightarrow> int \<Rightarrow> int" where
  "c_mod a b = a - b * c_div a b"

section \<open>Initialisation\<close>

text \<open>
  The firmware wait of \<^verbatim>\<open>initSensor\<close> (lines 97-103): the loop variable \<open>i\<close> is the
  argument, and the value the loop leaves in it is returned with the log.
\<close>

function wait_firmware :: "device \<Rightarrow> int \<Rightarrow> int \<Rightarrow> world \<Rightarrow> int \<times> world" where
  "wait_firmware dev fd i w =
     (if i < 100 then
        (let (st, w1) = readReg8 dev fd FIRMWARE_SYSTEM_STATUS w
         in if uint st AND 0x01 \<noteq> 0
            then (i, printf (MsgFirmwareLoaded (i + 1)) w1)
            else wait_firmware dev fd (i + 1) (usleep 10000 w1))
      else (i, w))"
  by pat_completeness auto
termination
  by (relation "measure (\<lambda>(dev, fd, i, w). nat (100 - i))") auto

declare wait_firmware.simps [simp del]

definition initSensor :: "device \<Rightarrow> int \<Rightarrow> world \<Rightarrow> int \<times> world" where
  "initSensor dev fd w =
     (let w0 = printf MsgInit w;
          (model_id, w1) = readReg16 dev fd IDENTIFICATION_MODEL_ID w0
      in if uint model_id = 0xEACC
         then
           (let w2 = printf (MsgSensorFound (uint model_id)) w1;
                w3 = writeReg8 fd SOFT_RESET 0x00 w2;
                w4 = usleep 10000 w3;
                w5 = writeReg8 fd SOFT_RESET 0x01 w4;
                w6 = usleep 10000 w5;
                w7 = printf MsgWaitFirmware w6;
                (i, w8) = wait_firmware dev fd 0 w7
            in if i \<ge> 100
               then (-1, printf MsgFirmwareTimeout w8)
               else
                 (let w9 = writeReg8 fd RANGE_CONFIG_VCSEL_PERIOD_A 0x09 w8;
                      w10 = writeReg8 fd RANGE_CONFIG_VCSEL_PERIOD_B 0x0D w9;
                      w11 = writeReg8 fd RANGE_CONFIG_VALID_PHASE_HIGH 0xC8 w10;
                      w12 = writeReg16 fd RANGE_CONFIG_TIMEOUT_MACROP_A 0x00D6 w11;
                      w13 = writeReg16 fd RANGE_CONFIG_TIMEOUT_MACROP_B 0x00D6 w12;
                      w14 = writeReg8 fd SYSTEM_INTERRUPT_CONFIG_GPIO 0x01 w13;
                      w15 = writeReg8 fd SYSTEM_INTERRUPT_CLEAR 0x01 w14
                  in (0, printf MsgSensorInitialized w15)))
         else (-1, printf (MsgUnknownSensor (uint model_id)) w1))"

definition startRanging :: "int \<Rightarrow> world \<Rightarrow> world" where
  "startRanging fd w =
     (let w1 = writeReg8 fd SYSTEM_INTERRUPT_CLEAR 0x01 w;
          w2 = writeReg8 fd SYSTEM_MODE_START 0x40 w1
      in usleep 50000 w2)"

definition stopRanging :: "int \<Rightarrow> world \<Rightarrow> world" where
  "stopRanging fd w = writeReg8 fd SYSTEM_MODE_START 0x00 w"

section \<open>One sample\<close>

definition getDistance :: "device \<Rightarrow> int \<Rightarrow> world \<Rightarrow> int \<times> world" where
  "getDistance dev fd w =
     (let (gpio_status, w1) = readReg8 dev fd GPIO_TIO_HV_STATUS w
      in if uint gpio_status AND 0x01 = 0
         then (-1, w1)
         else
           (let (range_status, w2) = readReg8 dev fd RESULT_RANGE_STATUS w1;
                (distance, w3) = readReg16 dev fd RESULT_DISTANCE w2;
                w4 = writeReg8 fd SYSTEM_INTERRUPT_CLEAR 0x01 w3
            in if uint distance > 0 \<and> uint distance < 8000
               then (if drop_bit 4 (uint range_status) AND 0x0F = 0
                     then (uint distance, w4)
                     else (-1, w4))
               else (-1, w4)))"

text \<open>The bar of \<^verbatim>\<open>printDistance\<close> (lines 191-193), with its loop variable \<open>i\<close>.\<close>

function print_bars :: "int \<Rightarrow> int \<Rightarrow> world \<Rightarrow> world" where
  "print_bars i bars w = (if i < bars then print_bars (i + 1) bars (printf MsgBar w) else w)"
  by pat_completeness auto
termination
  by (relation "measure (\<lambda>(i, bars, w). nat (bars - i))") auto

declare print_bars.simps [simp del]

definition printDistance :: "int \<Rightarrow> int \<Rightarrow> world \<Rightarrow> world" where
  "printDistance distance count w =
     (let w1 = printf (MsgSample count distance) w;
          bars = c_div distance 100;
          bars = (if bars > 40 then 40 else bars);
          w2 = printf MsgBarOpen w1;
          w3 = print_bars 0 bars w2;
          w4 = (if distance < 100 then printf MsgVeryClose w3
                else if distance < 300 then printf MsgClose w3
                else w3)
      in printf MsgNewline w4)"

section \<open>The main program\<close>

text \<open>
  The variables of \<^verbatim>\<open>main\<close> that live across iterations, the global descriptor
  \<^verbatim>\<open>fd\<close> and the log. \<^verbatim>\<open>distance\<close> is assigned at the head of every iteration before
  it is read, so it is local to the loop body. The accumulator \<^verbatim>\<open>sum\<close> is the field
  \<open>sum_acc\<close>.
\<close>

record main_state =
  fd :: int
  count :: int
  errors :: int
  sum_acc :: int
  min_dist :: int
  max_dist :: int
  world :: world

text \<open>One iteration of \<^verbatim>\<open>while (1)\<close> (lines 257-274).\<close>

definition loop_body :: "device \<Rightarrow> main_state \<Rightarrow> main_state" where
  "loop_body dev s =
     (let (distance, w1) = getDistance dev (fd s) (world s);
          s1 = s\<lparr>world := w1\<rparr>;
          s2 =
            (if distance > 0
             then
               (let a = s1\<lparr>count := wrap32 (count s1 + 1)\<rparr>;
                    b = a\<lparr>sum_acc := wrap32 (sum_acc a + distance)\<rparr>;
                    c = (if distance < min_dist b then b\<lparr>min_dist := distance\<rparr> else b);
                    d = (if distance > max_dist c then c\<lparr>max_dist := distance\<rparr> else c)
                in d\<lparr>world := printDistance distance (count d) (world d)\<rparr>)
             else
               (let a = s1\<lparr>errors := wrap32 (errors s1 + 1)\<rparr>
                in if c_mod (errors a) 20 = 0
                   then a\<lparr>world := printf (MsgWaiting (errors a)) (world a)\<rparr>
                   else a))
      in s2\<lparr>world := usleep 50000 (world s2)\<rparr>)"

text \<open>
  The loop never exits, so the program is observed after a number of iterations:
  \<open>main_loop dev n s\<close> is the state that \<open>n\<close> iterations leave behind.
\<close>

primrec main_loop :: "device \<Rightarrow> nat \<Rightarrow> main_state \<Rightarrow> main_state" where
  "main_loop dev 0 s = s"
| "main_loop dev (Suc n) s = main_loop dev n (loop_body dev s)"

text \<open>The values \<^verbatim>\<open>getDistance\<close> returned in those \<open>n\<close> iterations, oldest first.\<close>

primrec samples :: "device \<Rightarrow> nat \<Rightarrow> main_state \<Rightarrow> int list" where
  "samples dev 0 s = []"
| "samples dev (Suc n) s = fst (getDistance dev (fd s) (world s)) # samples dev n (loop_body dev s)"

definition accepted :: "int list \<Rightarrow> int list" where
  "accepted ds = filter (\<lambda>d. d > 0) ds"

definition rejected :: "int list \<Rightarrow> int list" where
  "rejected ds = filter (\<lambda>d. \<not> d > 0) ds"

text \<open>
  \<^verbatim>\<open>main\<close> up to the loop (lines 207-253). \<open>setup_rc\<close> and \<open>i2c_rc\<close> are what
  \<^verbatim>\<open>wiringPiSetup\<close> and \<^verbatim>\<open>wiringPiI2CSetup\<close> return. The result is the exit code
  with the log when \<^verbatim>\<open>main\<close> returns, and the state at the head of the loop otherwise.
\<close>

definition main_start :: "device \<Rightarrow> int \<Rightarrow> int \<Rightarrow> (int \<times> world) + main_state" where
  "main_start dev setup_rc i2c_rc =
     (let w0 = printf MsgBanner [];
          w1 = w0 @ [WiringPiSetup setup_rc]
      in if setup_rc = -1
         then Inl (1, printf MsgWiringPiFailed w1)
         else
           (let w2 = w1 @ [I2CSetup VL53L1X_ADDRESS i2c_rc]
            in if i2c_rc = -1
               then Inl (1, printf MsgI2COpenFailed w2)
               else
                 (let w3 = printf (MsgI2COpened i2c_rc) w2;
                      (rc, w4) = initSensor dev i2c_rc w3
                  in if rc \<noteq> 0
                     then Inl (1, printf MsgSensorInitFailed w4)
                     else
                       (let w5 = startRanging i2c_rc w4;
                            w6 = printf MsgStartMeasuring w5
                        in Inr \<lparr>fd = i2c_rc, count = 0, errors = 0, sum_acc = 0,
                                min_dist = 9999, max_dist = 0, world = w6\<rparr>))))"

definition main :: "device \<Rightarrow> int \<Rightarrow> int \<Rightarrow> nat \<Rightarrow> (int \<times> world) + main_state" where
  "main dev setup_rc i2c_rc n =
     (case main_start dev setup_rc i2c_rc of
        Inl e \<Rightarrow> Inl e
      | Inr s \<Rightarrow> Inr (main_loop dev n s))"

section \<open>Observations on a log\<close>

text \<open>The register address event that opens every register access of the program.\<close>

definition addr_event :: "int \<Rightarrow> 16 word \<Rightarrow> event" where
  "addr_event h reg = I2CWriteReg8 h (drop_bit 8 (uint reg) AND 0xFF) (uint reg AND 0xFF)"

text \<open>How often the firmware status register and the distance register were addressed.\<close>

definition fw_polls :: "event list \<Rightarrow> nat" where
  "fw_polls es = length (filter (\<lambda>e. case e of I2CWriteReg8 _ h l \<Rightarrow> h = 0x00 \<and> l = 0x10 | _ \<Rightarrow> False) es)"

definition distance_reads :: "event list \<Rightarrow> nat" where
  "distance_reads es = length (filter (\<lambda>e. case e of I2CWriteReg8 _ h l \<Rightarrow> h = 0x00 \<and> l = 0x96 | _ \<Rightarrow> False) es)"

definition bus_reads :: "event list \<Rightarrow> nat" where
  "bus_reads es = length (filter (\<lambda>e. case e of I2CRead _ _ \<Rightarrow> True | _ \<Rightarrow> False) es)"

text \<open>How often the byte \<open>0x01\<close> was written to \<^verbatim>\<open>SYSTEM_INTERRUPT_CLEAR\<close> (\<open>0x0086\<close>).\<close>

fun interrupt_clears :: "event list \<Rightarrow> nat" where
  "interrupt_clears (I2CWriteReg8 f h l # I2CWrite f' d # es) =
     (if h = 0x00 \<and> l = 0x86 \<and> d = 0x01 then 1 else 0) + interrupt_clears es"
| "interrupt_clears (e # es) = interrupt_clears es"
| "interrupt_clears [] = 0"

text \<open>The messages printed, in order.\<close>

definition printed :: "event list \<Rightarrow> msg list" where
  "printed es = concat (map (\<lambda>e. case e of Printf m \<Rightarrow> [m] | _ \<Rightarrow> []) es)"

section \<open>A scripted sensor as the device\<close>

text \<open>
  Modelled from the spec: the mock bus of the testable properties is a test double, not
  part of the program. \<open>mock_dev model_id k f\<close> answers the two reads of the model
  identification register with the bytes of \<open>model_id\<close>, reports bit 0 of the firmware
  status from the \<open>k\<close>-th poll on (never when \<open>k = 0\<close>), and serves the samples
  \<open>f 0\<close>, \<open>f 1\<close>, ... in turn, each a triple of the data-ready byte, the range status
  byte and the distance. The sample in turn is the number of distance reads so far. The
  register a read refers to is the one addressed last, with at most one read since.
\<close>

definition mock_answer :: "int \<Rightarrow> nat \<Rightarrow> (nat \<Rightarrow> int \<times> int \<times> int) \<Rightarrow> event list \<Rightarrow> int \<Rightarrow> nat \<Rightarrow> int" where
  "mock_answer model_id k f w reg off =
     (if reg = 0x010F then (if off = 0 then drop_bit 8 model_id AND 0xFF else model_id AND 0xFF)
      else if reg = 0x0010 then (if k \<noteq> 0 \<and> k \<le> fw_polls w then 1 else 0)
      else if reg = 0x0031 then fst (f (distance_reads w))
      else if reg = 0x0089 then fst (snd (f (distance_reads w)))
      else if reg = 0x0096 then
        (let d = snd (snd (f (distance_reads w - 1)))
         in if off = 0 then drop_bit 8 d AND 0xFF else d AND 0xFF)
      else 0)"

definition mock_dev :: "int \<Rightarrow> nat \<Rightarrow> (nat \<Rightarrow> int \<times> int \<times> int) \<Rightarrow> device" where
  "mock_dev model_id k f w =
     (case rev w of
        I2CWriteReg8 _ h l # _ \<Rightarrow> mock_answer model_id k f w (h * 256 + l) 0
      | I2CRead _ _ # I2CWriteReg8 _ h l # _ \<Rightarrow> mock_answer model_id k f w (h * 256 + l) 1
      | _ \<Rightarrow> 0)"

text \<open>
  A list of distances as a script: data ready and status 0 while the list lasts, data
  not ready after it.
\<close>

definition scripted :: "int list \<Rightarrow> nat \<Rightarrow> int \<times> int \<times> int" where
  "scripted ds i = (if i < length ds then (1, 0, ds ! i) else (0, 0, 0))"

text \<open>The same sample at every turn.\<close>

definition steady :: "int \<Rightarrow> int \<Rightarrow> int \<Rightarrow> nat \<Rightarrow> int \<times> int \<times> int" where
  "steady g s d i = (g, s, d)"

text \<open>
  What \<^verbatim>\<open>initSensor\<close> puts in the log between the identification and the firmware
  wait (lines 90-96), and after the wait (lines 111-123).
\<close>

definition reset_events :: "int \<Rightarrow> event list" where
  "reset_events h =
     [I2CWriteReg8 h 0x00 0x00, I2CWrite h 0x00, Usleep 10000,
      I2CWriteReg8 h 0x00 0x00, I2CWrite h 0x01, Usleep 10000, Printf MsgWaitFirmware]"

definition config_events :: "int \<Rightarrow> event list" where
  "config_events h =
     [I2CWriteReg8 h 0x00 0x60, I2CWrite h 0x09,
      I2CWriteReg8 h 0x00 0x63, I2CWrite h 0x0D,
      I2CWriteReg8 h 0x00 0x69, I2CWrite h 0xC8,
      I2CWriteReg8 h 0x00 0x5E, I2CWrite h 0x00, I2CWrite h 0xD6,
      I2CWriteReg8 h 0x00 0x61, I2CWrite h 0x00, I2CWrite h 0xD6,
      I2CWriteReg8 h 0x00 0x46, I2CWrite h 0x01,
      I2CWriteReg8 h 0x00 0x86, I2CWrite h 0x01,
      Printf MsgSensorInitialized]"

text \<open>The state in which \<^verbatim>\<open>main\<close> enters its loop, and the log of a start-up that
  finds the sensor ready at the first firmware poll.\<close>

definition init_state :: "int \<Rightarrow> world \<Rightarrow> main_state" where
  "init_state h w = \<lparr>fd = h, count = 0, errors = 0, sum_acc = 0, min_dist = 9999, max_dist = 0, world = w\<rparr>"

definition startup_log :: "int \<Rightarrow> event list" where
  "startup_log h =
     [Printf MsgBanner, WiringPiSetup 0, I2CSetup 0x29 h, Printf (MsgI2COpened h), Printf MsgInit,
      I2CWriteReg8 h 0x01 0x0F, I2CRead h 0xEA, I2CRead h 0xCC, Printf (MsgSensorFound 0xEACC)]
     @ reset_events h
     @ [I2CWriteReg8 h 0x00 0x10, I2CRead h 1, Printf (MsgFirmwareLoaded 1)]
     @ config_events h
     @ [I2CWriteReg8 h 0x00 0x86, I2CWrite h 0x01, I2CWriteReg8 h 0x00 0x87, I2CWrite h 0x40,
        Usleep 50000, Printf MsgStartMeasuring]"

text \<open>
  The sensor of the end-to-end scenario: model id \<open>0xEACC\<close>, firmware ready at the first
  poll, and the distances 50, 250, 500, 9000, 400, each with data ready and status 0.
\<close>

definition scenario :: device where
  "scenario = mock_dev 0xEACC 1 (scripted [50, 250, 500, 9000, 400])"

text \<open>The numbers carried by the waiting lines (line 270) in a log, in order.\<close>

definition waiting_lines :: "event list \<Rightarrow> int list" where
  "waiting_lines es = concat (map (\<lambda>e. case e of Printf (MsgWaiting k) \<Rightarrow> [k] | _ \<Rightarrow> []) es)"

text \<open>
  Modelled from the spec: its ``every 20 consecutive invalid polls'' refers to the run of
  invalid polls that the latest poll ends; this is the length of that run, in a history
  of values returned by \<^verbatim>\<open>getDistance\<close>.
\<close>

definition trailing_invalid :: "int list \<Rightarrow> nat" where
  "trailing_invalid ds = length (takeWhile (\<lambda>d. \<not> d > 0) (rev ds))"

text \<open>
  Two more scripted sensors. The first serves readings of distance 0, which
  \<^verbatim>\<open>getDistance\<close> rejects, except for one reading of 500 at the twentieth turn. The
  second serves the distance 7999 for ever.
\<close>

definition one_hit :: "nat \<Rightarrow> int \<times> int \<times> int" where
  "one_hit i = (1, 0, if i = 19 then 500 else 0)"

definition one_hit_dev :: device where
  "one_hit_dev = mock_dev 0xEACC 1 one_hit"

definition far_dev :: device where
  "far_dev = mock_dev 0xEACC 1 (steady 1 0 7999)"

text \<open>
  The firmware wait seen from the device. \<open>poll_log dev h w j\<close> is the log after \<open>j\<close>
  polls of the firmware status that each failed and were each followed by the 10 ms
  sleep, starting from the log \<open>w\<close>; \<open>poll_status dev h w j\<close> is the status byte that
  the next poll reads then. \<open>firmware_wait_log dev h w\<close> is the log with which
  \<^verbatim>\<open>initSensor\<close>, called on \<open>w\<close>, enters the wait once the identification matched.
\<close>

fun poll_log :: "device \<Rightarrow> int \<Rightarrow> world \<Rightarrow> nat \<Rightarrow> world" where
  "poll_log dev h w 0 = w"
| "poll_log dev h w (Suc j) =
     poll_log dev h (usleep 10000 (snd (readReg8 dev h FIRMWARE_SYSTEM_STATUS w))) j"

definition poll_status :: "device \<Rightarrow> int \<Rightarrow> world \<Rightarrow> nat \<Rightarrow> 8 word" where
  "poll_status dev h w j = fst (readReg8 dev h FIRMWARE_SYSTEM_STATUS (poll_log dev h w j))"

definition firmware_wait_log :: "device \<Rightarrow> int \<Rightarrow> world \<Rightarrow> world" where
  "firmware_wait_log dev h w =
     snd (readReg16 dev h IDENTIFICATION_MODEL_ID (printf MsgInit w))
     @ Printf (MsgSensorFound 0xEACC) # reset_events h"

text \<open>
  Modelled from the spec: one more test double, a sensor that identifies as \<open>0xEACC\<close>
  and answers every poll of the firmware status with \<open>0x02\<close>, a byte that is not zero
  and has bit 0 unset.
\<close>

definition busy_dev :: device where
  "busy_dev w =
     (case rev w of
        I2CWriteReg8 _ h l # _ \<Rightarrow>
          (if h = 0x01 \<and> l = 0x0F then 0xEA else if h = 0x00 \<and> l = 0x10 then 0x02 else 0)
      | I2CRead _ _ # I2CWriteReg8 _ h l # _ \<Rightarrow> (if h = 0x01 \<and> l = 0x0F then 0xCC else 0)
      | _ \<Rightarrow> 0)"

section \<open>Basic facts\<close>

lemma byte_of_int: "uint (word_of_int (x AND 0xFF) :: 8 word) = x AND 0xFF"
proof -
  have "(0xFF :: int) = mask 8" by (simp add: mask_eq_exp_minus_1)
  then show ?thesis by (simp add: uint_word_of_int_eq take_bit_eq_mask and.assoc)
qed

lemma join_int: "push_bit 8 (drop_bit 8 u AND 0xFF) OR (u AND 0xFF) = take_bit 16 (u::int)"
proof -
  have m: "(0xFF :: int) = mask 8" by (simp add: mask_eq_exp_minus_1)
  have "push_bit 8 (take_bit 8 (drop_bit 8 u)) OR (take_bit 8 u) = take_bit 16 u"
    by (rule bit_eqI) (auto simp add: bit_simps)
  then show ?thesis unfolding m take_bit_eq_mask .
qed

lemma join_word: "word_of_int (push_bit 8 (drop_bit 8 (uint v) AND 0xFF) OR (uint v AND 0xFF)) = (v :: 16 word)"
proof -
  have "take_bit 16 (uint v) = uint v"
    by (rule take_bit_int_eq_self) (use uint_lt2p [of v] in simp_all)
  then show ?thesis unfolding join_int by simp
qed

lemma writeReg8_log:
  "writeReg8 h reg v w = w @ [addr_event h reg, I2CWrite h (uint v)]"
  by (simp add: writeReg8_def wiringPiI2CWriteReg8_def wiringPiI2CWrite_def addr_event_def)

lemma writeReg16_log:
  "writeReg16 h reg v w =
     w @ [addr_event h reg, I2CWrite h (drop_bit 8 (uint v) AND 0xFF), I2CWrite h (uint v AND 0xFF)]"
  by (simp add: writeReg16_def wiringPiI2CWriteReg8_def wiringPiI2CWrite_def addr_event_def)

lemma readReg8_log:
  "readReg8 dev h reg w =
     (word_of_int (dev (w @ [addr_event h reg]) AND 0xFF),
      w @ [addr_event h reg, I2CRead h (dev (w @ [addr_event h reg]))])"
  by (simp add: readReg8_def wiringPiI2CWriteReg8_def wiringPiI2CRead_def addr_event_def Let_def)

lemma readReg16_log:
  "readReg16 dev h reg w =
     (let r1 = dev (w @ [addr_event h reg]);
          r2 = dev (w @ [addr_event h reg, I2CRead h r1])
      in (word_of_int (push_bit 8 (r1 AND 0xFF) OR (r2 AND 0xFF)),
          w @ [addr_event h reg, I2CRead h r1, I2CRead h r2]))"
  by (simp add: readReg16_def wiringPiI2CWriteReg8_def wiringPiI2CRead_def addr_event_def
      byte_of_int Let_def del: push_bit_and)

lemma emitted_append [simp]: "emitted w (w @ es) = es"
  by (simp add: emitted_def)


lemma low_byte: "(u::int) AND 0xFF = u mod 256"
proof -
  have "(0xFF :: int) = mask 8" by (simp add: mask_eq_exp_minus_1)
  then have "u AND 0xFF = take_bit 8 u" by (simp only: take_bit_eq_mask)
  then show ?thesis by (simp add: take_bit_eq_mod)
qed

lemma high_byte: "drop_bit 8 (uint (v :: 16 word)) AND 0xFF = uint v div 256"
proof -
  have "uint v < 65536" using uint_lt2p [of v] by simp
  then have "uint v div 256 < 256" by simp
  moreover have "0 \<le> uint v div 256" by (simp add: pos_imp_zdiv_nonneg_iff)
  ultimately have "(uint v div 256) mod 256 = uint v div 256" by simp
  then show ?thesis unfolding low_byte by (simp add: drop_bit_eq_div)
qed

lemma regfile_round_trip:
  "fst (readReg16 (regfile_dev rf) h reg (writeReg16 h reg v w)) = v"
  by (simp add: readReg16_log writeReg16_log regfile_dev_def addr_event_def Let_def join_word
      del: push_bit_and)

section \<open>Register access is big-endian\<close>

text \<open>
  C3. For every 16-bit value \<open>v\<close> and register address, \<^verbatim>\<open>writeReg16\<close> puts three calls
  on the bus: the address (high byte, low byte), then the data byte \<open>v div 256\<close>, then the
  data byte \<open>v mod 256\<close>; these are \<^verbatim>\<open>(v >> 8) & 0xFF\<close> and \<^verbatim>\<open>v & 0xFF\<close>. Reading the
  same register back with \<^verbatim>\<open>readReg16\<close> from a register file, whatever it held before
  and whatever happened on the bus before the write, returns \<open>v\<close>.
\<close>

theorem writeReg16_big_endian_round_trip:
  "emitted w (writeReg16 h reg v w) =
     [I2CWriteReg8 h (uint reg div 256) (uint reg mod 256),
      I2CWrite h (uint v div 256), I2CWrite h (uint v mod 256)]
   \<and> data_bytes (emitted w (writeReg16 h reg v w)) =
       [drop_bit 8 (uint v) AND 0xFF, uint v AND 0xFF]
   \<and> fst (readReg16 (regfile_dev rf) h reg (writeReg16 h reg v w)) = v"
proof (intro conjI)
  show "emitted w (writeReg16 h reg v w) =
     [I2CWriteReg8 h (uint reg div 256) (uint reg mod 256),
      I2CWrite h (uint v div 256), I2CWrite h (uint v mod 256)]"
    by (simp only: writeReg16_log addr_event_def emitted_append high_byte) (simp add: low_byte)
  show "data_bytes (emitted w (writeReg16 h reg v w)) =
       [drop_bit 8 (uint v) AND 0xFF, uint v AND 0xFF]"
    by (simp add: writeReg16_log addr_event_def data_bytes_def)
  show "fst (readReg16 (regfile_dev rf) h reg (writeReg16 h reg v w)) = v"
    by (rule regfile_round_trip)
qed

section \<open>Facts about one sample\<close>

lemma ready_bit: "(uint (g :: 8 word) AND 0x01 = 0) = (\<not> bit g 0)"
proof -
  have "bit g 0 = bit (uint g) 0" by (simp add: bit_uint_iff)
  also have "\<dots> = odd (uint g)" by (simp only: bit_0)
  finally show ?thesis by (simp add: and_one_eq even_iff_mod_2_eq_zero)
qed

lemma nibble_int: "(drop_bit 4 (u::int) AND 0x0F = 0) = (u AND 0xF0 = 0)"
proof -
  have a: "(0x0F :: int) = mask 4" by (simp add: mask_eq_exp_minus_1)
  have b: "(0xF0 :: int) = push_bit 4 (mask 4)" by (simp add: mask_eq_exp_minus_1 push_bit_eq_mult)
  have "u AND push_bit 4 (mask 4) = push_bit 4 (drop_bit 4 u AND mask 4)"
    by (rule bit_eqI) (auto simp add: bit_simps)
  then show ?thesis unfolding a b by (simp only: push_bit_eq_0_iff)
qed

lemma status_nibble: "(drop_bit 4 (uint (rs :: 8 word)) AND 0x0F = 0) = (rs AND 0xF0 = 0)"
proof -
  have "(rs AND 0xF0 = 0) = (uint (rs AND 0xF0) = 0)"
    by (simp only: uint_0_iff)
  also have "\<dots> = (uint rs AND 0xF0 = 0)"
    by (simp add: uint_and)
  finally show ?thesis by (simp only: nibble_int)
qed

lemma distance_range: "(0 < uint (d :: 16 word) \<and> uint d < 8000) = (0 < d \<and> d < 8000)"
  by (simp add: word_less_def)


lemma getDistance_idle:
  assumes "\<not> bit (fst (readReg8 dev h GPIO_TIO_HV_STATUS w)) 0"
  shows "getDistance dev h w = (-1, snd (readReg8 dev h GPIO_TIO_HV_STATUS w))"
  using assms by (simp add: getDistance_def ready_bit split_beta)

lemma getDistance_ready:
  assumes "readReg8 dev h GPIO_TIO_HV_STATUS w = (g, w1)" and "bit g 0"
    and "readReg8 dev h RESULT_RANGE_STATUS w1 = (rs, w2)"
    and "readReg16 dev h RESULT_DISTANCE w2 = (d, w3)"
  shows "getDistance dev h w =
    (if 0 < d \<and> d < 8000 \<and> rs AND 0xF0 = 0 then uint d else -1,
     writeReg8 h SYSTEM_INTERRUPT_CLEAR 0x01 w3)"
  using assms by (auto simp add: getDistance_def ready_bit status_nibble distance_range Let_def)


lemmas mock_simps = mock_dev_def mock_answer_def distance_reads_def fw_polls_def
  readReg8_log readReg16_log writeReg8_log writeReg16_log addr_event_def Let_def regs


lemma emitted_Nil [simp]: "emitted [] es = es"
  by (simp add: emitted_def)

lemma mock_gpio:
  "readReg8 (mock_dev m k (steady g s d)) h GPIO_TIO_HV_STATUS w =
     (word_of_int (g AND 0xFF), w @ [I2CWriteReg8 h 0x00 0x31, I2CRead h g])"
  by (simp add: mock_simps steady_def)

lemma mock_status:
  "readReg8 (mock_dev m k (steady g s d)) h RESULT_RANGE_STATUS w =
     (word_of_int (s AND 0xFF), w @ [I2CWriteReg8 h 0x00 0x89, I2CRead h s])"
  by (simp add: mock_simps steady_def)

lemma mock_distance:
  "readReg16 (mock_dev m k (steady g s d)) h RESULT_DISTANCE w =
     (word_of_int (push_bit 8 (drop_bit 8 d AND 0xFF) OR (d AND 0xFF)),
      w @ [I2CWriteReg8 h 0x00 0x96, I2CRead h (drop_bit 8 d AND 0xFF), I2CRead h (d AND 0xFF)])"
  by (simp add: mock_simps steady_def and.assoc del: push_bit_and)

lemma getDistance_emitted_ready:
  assumes "bit (fst (readReg8 dev h GPIO_TIO_HV_STATUS w)) 0"
  shows "\<exists>r1 r2 r3 r4. emitted w (snd (getDistance dev h w)) =
     [I2CWriteReg8 h 0x00 0x31, I2CRead h r1, I2CWriteReg8 h 0x00 0x89, I2CRead h r2,
      I2CWriteReg8 h 0x00 0x96, I2CRead h r3, I2CRead h r4,
      I2CWriteReg8 h 0x00 0x86, I2CWrite h 0x01]"
proof -
  obtain g w1 where a: "readReg8 dev h GPIO_TIO_HV_STATUS w = (g, w1)" by force
  obtain rs w2 where b: "readReg8 dev h RESULT_RANGE_STATUS w1 = (rs, w2)" by force
  obtain d w3 where c: "readReg16 dev h RESULT_DISTANCE w2 = (d, w3)" by force
  from assms a have g: "bit g 0" by simp
  from a have w1: "w1 = w @ [I2CWriteReg8 h 0x00 0x31, I2CRead h (dev (w @ [I2CWriteReg8 h 0x00 0x31]))]"
    by (auto simp add: readReg8_log addr_event_def regs)
  from b have w2: "w2 = w1 @ [I2CWriteReg8 h 0x00 0x89, I2CRead h (dev (w1 @ [I2CWriteReg8 h 0x00 0x89]))]"
    by (auto simp add: readReg8_log addr_event_def regs)
  from c have w3: "\<exists>r3 r4. w3 = w2 @ [I2CWriteReg8 h 0x00 0x96, I2CRead h r3, I2CRead h r4]"
    by (auto simp add: readReg16_log addr_event_def Let_def regs)
  then obtain r3 r4 where w3': "w3 = w2 @ [I2CWriteReg8 h 0x00 0x96, I2CRead h r3, I2CRead h r4]"
    by blast
  have "snd (getDistance dev h w) = writeReg8 h SYSTEM_INTERRUPT_CLEAR 0x01 w3"
    by (simp add: getDistance_ready [OF a g b c])
  then show ?thesis
    unfolding w3' w2 w1 by (simp add: writeReg8_log addr_event_def regs)
qed

section \<open>Validation of a sample\<close>

text \<open>
  C1. In a poll cycle that finds the data-ready bit set, let \<open>rs\<close> be the status byte and
  \<open>d\<close> the 16-bit distance that \<^verbatim>\<open>getDistance\<close> reads. It returns \<open>d\<close> if and only if
  \<open>0 < d < 8000\<close> and bits 4 to 7 of \<open>rs\<close> are zero, and it returns \<open>-1\<close> otherwise.
\<close>

theorem getDistance_accepts_iff:
  assumes "readReg8 dev h GPIO_TIO_HV_STATUS w = (g, w1)" and "bit g 0"
    and "readReg8 dev h RESULT_RANGE_STATUS w1 = (rs, w2)"
    and "readReg16 dev h RESULT_DISTANCE w2 = (d, w3)"
  shows "(fst (getDistance dev h w) = uint d) = (0 < d \<and> d < 8000 \<and> rs AND 0xF0 = 0)
    \<and> fst (getDistance dev h w) = (if 0 < d \<and> d < 8000 \<and> rs AND 0xF0 = 0 then uint d else -1)"
proof -
  have "uint d \<noteq> -1"
    using uint_ge_0 [of d] by arith
  then show ?thesis
    unfolding getDistance_ready [OF assms] by simp
qed

text \<open>
  The four samples of the spec on the scripted sensor: 7999 with status nibble 0 is
  accepted; 7999 with status nibble 1, 0 and 8000 are rejected.
\<close>

theorem getDistance_accepts_iff_witness:
  "fst (getDistance (mock_dev 0xEACC 1 (steady 1 0x00 7999)) 3 []) = 7999
   \<and> fst (getDistance (mock_dev 0xEACC 1 (steady 1 0x10 7999)) 3 []) = -1
   \<and> fst (getDistance (mock_dev 0xEACC 1 (steady 1 0x00 0)) 3 []) = -1
   \<and> fst (getDistance (mock_dev 0xEACC 1 (steady 1 0x00 8000)) 3 []) = -1"
proof -
  have g: "bit (1 :: 8 word) 0" by simp
  have "fst (getDistance (mock_dev 0xEACC 1 (steady 1 s d)) 3 []) =
      (if 0 < (word_of_int (push_bit 8 (drop_bit 8 d AND 0xFF) OR (d AND 0xFF)) :: 16 word)
          \<and> (word_of_int (push_bit 8 (drop_bit 8 d AND 0xFF) OR (d AND 0xFF)) :: 16 word) < 8000
          \<and> (word_of_int (s AND 0xFF) :: 8 word) AND 0xF0 = 0
       then uint (word_of_int (push_bit 8 (drop_bit 8 d AND 0xFF) OR (d AND 0xFF)) :: 16 word)
       else -1)" for s d
  proof -
    have a: "readReg8 (mock_dev 0xEACC 1 (steady 1 s d)) 3 GPIO_TIO_HV_STATUS [] =
        (1, [I2CWriteReg8 3 0x00 0x31, I2CRead 3 1])"
      by (simp add: mock_gpio)
    show ?thesis
      using getDistance_accepts_iff [OF a g mock_status mock_distance] by simp
  qed
  then show ?thesis by simp
qed

section \<open>The interrupt is cleared once per completed read\<close>

text \<open>
  C2, as the code has it. An invocation of \<^verbatim>\<open>getDistance\<close> that finds the data-ready
  bit set writes \<open>0x01\<close> to \<^verbatim>\<open>SYSTEM_INTERRUPT_CLEAR\<close> exactly once, whatever the status
  and the distance it read.
\<close>

theorem interrupt_clear_once_when_ready:
  assumes "bit (fst (readReg8 dev h GPIO_TIO_HV_STATUS w)) 0"
  shows "interrupt_clears (emitted w (snd (getDistance dev h w))) = 1"
proof -
  from getDistance_emitted_ready [OF assms] obtain r1 r2 r3 r4 where
    "emitted w (snd (getDistance dev h w)) =
     [I2CWriteReg8 h 0x00 0x31, I2CRead h r1, I2CWriteReg8 h 0x00 0x89, I2CRead h r2,
      I2CWriteReg8 h 0x00 0x96, I2CRead h r3, I2CRead h r4,
      I2CWriteReg8 h 0x00 0x86, I2CWrite h 0x01]" by blast
  then show ?thesis by simp
qed

text \<open>An accepted and a rejected reading, each with one clear.\<close>

theorem interrupt_clear_once_when_ready_witness:
  "bit (fst (readReg8 (mock_dev 0xEACC 1 (steady 1 0 7999)) 3 GPIO_TIO_HV_STATUS [])) 0
   \<and> fst (getDistance (mock_dev 0xEACC 1 (steady 1 0 7999)) 3 []) = 7999
   \<and> interrupt_clears (emitted [] (snd (getDistance (mock_dev 0xEACC 1 (steady 1 0 7999)) 3 []))) = 1
   \<and> bit (fst (readReg8 (mock_dev 0xEACC 1 (steady 1 0 8000)) 3 GPIO_TIO_HV_STATUS [])) 0
   \<and> fst (getDistance (mock_dev 0xEACC 1 (steady 1 0 8000)) 3 []) = -1
   \<and> interrupt_clears (emitted [] (snd (getDistance (mock_dev 0xEACC 1 (steady 1 0 8000)) 3 []))) = 1"
proof -
  have a: "bit (fst (readReg8 (mock_dev 0xEACC 1 (steady 1 0 7999)) 3 GPIO_TIO_HV_STATUS [])) 0"
    by (simp add: mock_gpio)
  have b: "bit (fst (readReg8 (mock_dev 0xEACC 1 (steady 1 0 8000)) 3 GPIO_TIO_HV_STATUS [])) 0"
    by (simp add: mock_gpio)
  have c: "fst (getDistance (mock_dev 0xEACC 1 (steady 1 0 7999)) 3 []) = 7999"
    by (simp add: getDistance_def mock_gpio mock_status mock_distance)
  have d: "fst (getDistance (mock_dev 0xEACC 1 (steady 1 0 8000)) 3 []) = -1"
    by (simp add: getDistance_def mock_gpio mock_status mock_distance)
  show ?thesis
    using a b c d interrupt_clear_once_when_ready [OF a] interrupt_clear_once_when_ready [OF b]
    by simp
qed

text \<open>
  C2 as stated speaks of every invocation. An invocation that finds the data-ready bit
  unset returns at line 147 and clears nothing.
\<close>

theorem interrupt_clear_skipped_when_not_ready:
  "fst (getDistance (mock_dev 0xEACC 1 (steady 0 0 500)) 3 []) = -1
   \<and> interrupt_clears (emitted [] (snd (getDistance (mock_dev 0xEACC 1 (steady 0 0 500)) 3 []))) = 0"
  by (simp add: getDistance_def mock_gpio)

section \<open>A poll without data touches nothing else\<close>

text \<open>
  C9. When bit 0 of the byte read from \<^verbatim>\<open>GPIO_TIO_HV_STATUS\<close> is unset,
  \<^verbatim>\<open>getDistance\<close> returns \<open>-1\<close> and the addressing of that register with its one read
  is all that it put on the bus: no read of the range status or of the distance, and no
  write to the interrupt-clear register.
\<close>

theorem getDistance_not_ready_only_polls:
  assumes "\<not> bit (fst (readReg8 dev h GPIO_TIO_HV_STATUS w)) 0"
  shows "fst (getDistance dev h w) = -1
    \<and> emitted w (snd (getDistance dev h w)) =
        [I2CWriteReg8 h 0x00 0x31, I2CRead h (dev (w @ [I2CWriteReg8 h 0x00 0x31]))]
    \<and> bus_reads (emitted w (snd (getDistance dev h w))) = 1
    \<and> interrupt_clears (emitted w (snd (getDistance dev h w))) = 0"
  unfolding getDistance_idle [OF assms]
  by (simp add: readReg8_log addr_event_def bus_reads_def regs)

theorem getDistance_not_ready_only_polls_witness:
  "\<not> bit (fst (readReg8 (mock_dev 0xEACC 1 (steady 0 0 500)) 3 GPIO_TIO_HV_STATUS [])) 0
   \<and> getDistance (mock_dev 0xEACC 1 (steady 0 0 500)) 3 [] = (-1, [I2CWriteReg8 3 0x00 0x31, I2CRead 3 0])"
proof -
  have a: "\<not> bit (fst (readReg8 (mock_dev 0xEACC 1 (steady 0 0 500)) 3 GPIO_TIO_HV_STATUS [])) 0"
    by (simp add: mock_gpio)
  have "mock_dev 0xEACC 1 (steady 0 0 500) [I2CWriteReg8 3 0x00 0x31] = 0"
    by (simp add: mock_simps steady_def)
  with a getDistance_not_ready_only_polls [OF a] show ?thesis
    by (simp add: prod_eq_iff emitted_def)
qed

section \<open>Facts about the sample line\<close>

lemma print_bars_replicate:
  "print_bars i bars w = w @ replicate (nat (bars - i)) (Printf MsgBar)"
proof (induction i bars w rule: print_bars.induct)
  case (1 i bars w)
  show ?case
  proof (cases "i < bars")
    case True
    then have "nat (bars - i) = Suc (nat (bars - (i + 1)))" by simp
    with True 1 show ?thesis
      by (subst print_bars.simps) (simp add: printf_def replicate_append_same)
  next
    case False
    then show ?thesis by (subst print_bars.simps) simp
  qed
qed

lemma c_div_nonneg: "0 \<le> a \<Longrightarrow> 0 < b \<Longrightarrow> c_div a b = a div b"
  by (cases "a = 0") (simp_all add: c_div_def)

section \<open>The sample line\<close>

text \<open>
  C8. For an accepted distance \<open>d\<close> (\<open>0 < d < 8000\<close>) \<^verbatim>\<open>printDistance\<close> prints the
  sample header, the opening of the bar, \<open>min (d div 100) 40\<close> blocks, then the
  very-close tag when \<open>d < 100\<close>, the close tag when \<open>100 \<le> d < 300\<close>, no tag from 300
  on, and the end of the line.
\<close>

theorem printDistance_bar_and_tag:
  assumes "0 < d" and "d < 8000"
  shows "emitted w (printDistance d c w) =
     [Printf (MsgSample c d), Printf MsgBarOpen]
     @ replicate (nat (min (d div 100) 40)) (Printf MsgBar)
     @ (if d < 100 then [Printf MsgVeryClose] else if d < 300 then [Printf MsgClose] else [])
     @ [Printf MsgNewline]"
proof -
  have "c_div d 100 = d div 100"
    using assms by (simp add: c_div_nonneg)
  moreover have "(if d div 100 > 40 then 40 else d div 100) = min (d div 100) 40"
    by (simp add: min_def)
  ultimately show ?thesis
    by (simp add: printDistance_def Let_def print_bars_replicate printf_def del: replicate_append_same)
qed

text \<open>Below 100, between 100 and 300, at 300, and the cap of 40 blocks at 7999.\<close>

theorem printDistance_bar_and_tag_witness:
  "printed (emitted [] (printDistance 50 1 [])) = [MsgSample 1 50, MsgBarOpen, MsgVeryClose, MsgNewline]
   \<and> printed (emitted [] (printDistance 250 2 [])) = [MsgSample 2 250, MsgBarOpen, MsgBar, MsgBar, MsgClose, MsgNewline]
   \<and> printed (emitted [] (printDistance 300 3 [])) = [MsgSample 3 300, MsgBarOpen, MsgBar, MsgBar, MsgBar, MsgNewline]
   \<and> length (filter (\<lambda>e. e = Printf MsgBar) (emitted [] (printDistance 7999 4 []))) = 40"
  using printDistance_bar_and_tag [of 50 "[]" 1] printDistance_bar_and_tag [of 250 "[]" 2]
    printDistance_bar_and_tag [of 300 "[]" 3] printDistance_bar_and_tag [of 7999 "[]" 4]
  by (simp add: printed_def numeral_eq_Suc)

section \<open>Facts about initialisation\<close>

lemma fw_polls_append [simp]: "fw_polls (a @ b) = fw_polls a + fw_polls b"
  by (simp add: fw_polls_def)

lemma bus_reads_append [simp]: "bus_reads (a @ b) = bus_reads a + bus_reads b"
  by (simp add: bus_reads_def)

lemma bus_calls_append [simp]: "bus_calls (a @ b) = bus_calls a @ bus_calls b"
  by (simp add: bus_calls_def)

lemma readReg8_fw_log:
  "readReg8 dev h FIRMWARE_SYSTEM_STATUS w =
     (word_of_int (dev (w @ [I2CWriteReg8 h 0x00 0x10]) AND 0xFF),
      w @ [I2CWriteReg8 h 0x00 0x10, I2CRead h (dev (w @ [I2CWriteReg8 h 0x00 0x10]))])"
  by (simp add: readReg8_log addr_event_def regs)

lemma wait_firmware_extends:
  "\<exists>es. snd (wait_firmware dev h i w) = w @ es \<and> fw_polls es \<le> nat (100 - i)
        \<and> bus_reads es = fw_polls es"
proof (induction dev h i w rule: wait_firmware.induct)
  case (1 dev fd i w)
  show ?case
  proof (cases "i < 100")
    case False
    then show ?thesis by (subst wait_firmware.simps) (simp add: fw_polls_def bus_reads_def)
  next
    case True
    obtain st w1 where r: "readReg8 dev fd FIRMWARE_SYSTEM_STATUS w = (st, w1)" by force
    then have w1: "w1 = w @ [I2CWriteReg8 fd 0x00 0x10, I2CRead fd (dev (w @ [I2CWriteReg8 fd 0x00 0x10]))]"
      by (simp add: readReg8_fw_log)
    show ?thesis
    proof (cases "uint st AND 0x01 \<noteq> 0")
      case set: True
      have "snd (wait_firmware dev fd i w) = w1 @ [Printf (MsgFirmwareLoaded (i + 1))]"
        using True r set by (subst wait_firmware.simps) (simp add: printf_def)
      with True show ?thesis
        unfolding w1 by (simp add: fw_polls_def bus_reads_def)
    next
      case unset: False
      from 1 [OF True r [symmetric] refl] unset obtain es where
        es: "snd (wait_firmware dev fd (i + 1) (usleep 10000 w1)) = usleep 10000 w1 @ es"
          "fw_polls es \<le> nat (100 - (i + 1))" "bus_reads es = fw_polls es"
        by auto
      have "snd (wait_firmware dev fd i w) = snd (wait_firmware dev fd (i + 1) (usleep 10000 w1))"
        using True r unset by (subst wait_firmware.simps) simp
      with es True show ?thesis
        unfolding w1 by (simp add: usleep_def fw_polls_def bus_reads_def)
    qed
  qed
qed


lemma mock_fw:
  "readReg8 (mock_dev m k f) h FIRMWARE_SYSTEM_STATUS w =
     (if k \<noteq> 0 \<and> k \<le> Suc (fw_polls w) then 1 else 0,
      w @ [I2CWriteReg8 h 0x00 0x10,
           I2CRead h (if k \<noteq> 0 \<and> k \<le> Suc (fw_polls w) then 1 else 0)])"
  by (simp add: readReg8_fw_log mock_dev_def mock_answer_def fw_polls_def)

lemma readReg16_id_log:
  "readReg16 dev h IDENTIFICATION_MODEL_ID w =
     (let r1 = dev (w @ [I2CWriteReg8 h 0x01 0x0F]);
          r2 = dev (w @ [I2CWriteReg8 h 0x01 0x0F, I2CRead h r1])
      in (word_of_int (push_bit 8 (r1 AND 0xFF) OR (r2 AND 0xFF)),
          w @ [I2CWriteReg8 h 0x01 0x0F, I2CRead h r1, I2CRead h r2]))"
  by (simp add: readReg16_log addr_event_def regs Let_def del: push_bit_and)

lemma initSensor_mismatch:
  assumes "readReg16 dev h IDENTIFICATION_MODEL_ID (printf MsgInit w) = (model_id, w1)"
    and "model_id \<noteq> 0xEACC"
  shows "initSensor dev h w = (-1, w1 @ [Printf (MsgUnknownSensor (uint model_id))])"
proof -
  have "uint model_id \<noteq> 0xEACC"
  proof
    assume "uint model_id = 0xEACC"
    then have "word_of_int (uint model_id) = (word_of_int 0xEACC :: 16 word)" by simp
    then have "model_id = 0xEACC" by simp
    with assms(2) show False by simp
  qed
  with assms(1) show ?thesis
    by (simp add: initSensor_def printf_def)
qed

lemma initSensor_match:
  assumes "readReg16 dev h IDENTIFICATION_MODEL_ID (printf MsgInit w) = (0xEACC, w1)"
    and "wait_firmware dev h 0 (w1 @ Printf (MsgSensorFound 0xEACC) # reset_events h) = (i, w8)"
  shows "initSensor dev h w =
    (if i \<ge> 100 then (-1, w8 @ [Printf MsgFirmwareTimeout]) else (0, w8 @ config_events h))"
  using assms
  by (simp add: initSensor_def printf_def usleep_def writeReg8_log writeReg16_log addr_event_def
      regs reset_events_def config_events_def Let_def)

lemma bus_calls_reset [simp]:
  "bus_calls (reset_events h) =
     [I2CWriteReg8 h 0x00 0x00, I2CWrite h 0x00, I2CWriteReg8 h 0x00 0x00, I2CWrite h 0x01]"
  by (simp add: bus_calls_def reset_events_def)

lemma fw_polls_reset [simp]: "fw_polls (reset_events h) = 0"
  by (simp add: fw_polls_def reset_events_def)

lemma fw_polls_config [simp]: "fw_polls (config_events h) = 0"
  by (simp add: fw_polls_def config_events_def)

lemma bus_reads_reset [simp]: "bus_reads (reset_events h) = 0"
  by (simp add: bus_reads_def reset_events_def)

lemma bus_reads_config [simp]: "bus_reads (config_events h) = 0"
  by (simp add: bus_reads_def config_events_def)

lemma initSensor_shape:
  assumes "readReg16 dev h IDENTIFICATION_MODEL_ID (printf MsgInit w) = (model_id, w1)"
  shows "\<exists>r1 r2 es. w1 = w @ [Printf MsgInit, I2CWriteReg8 h 0x01 0x0F, I2CRead h r1, I2CRead h r2]
     \<and> snd (initSensor dev h w) =
         (if model_id = 0xEACC then w1 @ Printf (MsgSensorFound 0xEACC) # reset_events h @ es
          else w1 @ [Printf (MsgUnknownSensor (uint model_id))])
     \<and> fw_polls es \<le> 100 \<and> bus_reads es = fw_polls es"
proof -
  from assms obtain r1 r2 where
    w1: "w1 = w @ [Printf MsgInit, I2CWriteReg8 h 0x01 0x0F, I2CRead h r1, I2CRead h r2]"
    by (auto simp add: readReg16_id_log printf_def Let_def)
  show ?thesis
  proof (cases "model_id = 0xEACC")
    case False
    with w1 initSensor_mismatch [OF assms False] show ?thesis
      by (intro exI [of _ r1] exI [of _ r2] exI [of _ "[]"]) (simp add: fw_polls_def bus_reads_def)
  next
    case True
    let ?w7 = "w1 @ Printf (MsgSensorFound 0xEACC) # reset_events h"
    obtain i w8 where wf: "wait_firmware dev h 0 ?w7 = (i, w8)" by force
    from wait_firmware_extends [of dev h 0 ?w7] wf obtain es where
      es: "w8 = ?w7 @ es" "fw_polls es \<le> 100" "bus_reads es = fw_polls es" by auto
    from assms True have a: "readReg16 dev h IDENTIFICATION_MODEL_ID (printf MsgInit w) = (0xEACC, w1)"
      by simp
    show ?thesis
    proof (cases "i \<ge> 100")
      case True
      with initSensor_match [OF a wf] es w1 \<open>model_id = 0xEACC\<close>
      have "snd (initSensor dev h w) = ?w7 @ (es @ [Printf MsgFirmwareTimeout])" by simp
      moreover have "fw_polls (es @ [Printf MsgFirmwareTimeout]) \<le> 100"
        using es by (simp add: fw_polls_def)
      moreover have "bus_reads (es @ [Printf MsgFirmwareTimeout]) = fw_polls (es @ [Printf MsgFirmwareTimeout])"
        using es by (simp add: fw_polls_def bus_reads_def)
      ultimately show ?thesis using w1 \<open>model_id = 0xEACC\<close> by (intro exI [of _ r1] exI [of _ r2] exI [of _ "es @ [Printf MsgFirmwareTimeout]"]) simp
    next
      case False
      with initSensor_match [OF a wf] es w1 \<open>model_id = 0xEACC\<close>
      have "snd (initSensor dev h w) = ?w7 @ (es @ config_events h)" by simp
      moreover have "fw_polls (es @ config_events h) \<le> 100"
        using es by simp
      moreover have "bus_reads (es @ config_events h) = fw_polls (es @ config_events h)"
        using es by simp
      ultimately show ?thesis using w1 \<open>model_id = 0xEACC\<close> by (intro exI [of _ r1] exI [of _ r2] exI [of _ "es @ config_events h"]) simp
    qed
  qed
qed

section \<open>Identification\<close>

text \<open>
  C4. The first bus calls of \<^verbatim>\<open>initSensor\<close> are the read of the model identification
  register (the address \<open>0x010F\<close> and two reads). If the value read is not \<open>0xEACC\<close>,
  \<^verbatim>\<open>initSensor\<close> returns \<open>-1\<close> and these three calls are all its bus traffic. If it is
  \<open>0xEACC\<close>, initialisation goes on: the next bus calls are the write of \<open>0x00\<close> to the
  soft reset register.
\<close>

theorem initSensor_checks_model_id:
  assumes "readReg16 dev h IDENTIFICATION_MODEL_ID (printf MsgInit w) = (model_id, w1)"
  shows "(\<exists>r1 r2. bus_calls (emitted w w1) = [I2CWriteReg8 h 0x01 0x0F, I2CRead h r1, I2CRead h r2])
    \<and> take 3 (bus_calls (emitted w (snd (initSensor dev h w)))) = bus_calls (emitted w w1)
    \<and> (model_id \<noteq> 0xEACC \<longrightarrow>
         fst (initSensor dev h w) = -1
         \<and> bus_calls (emitted w (snd (initSensor dev h w))) = bus_calls (emitted w w1))
    \<and> (model_id = 0xEACC \<longrightarrow>
         take 2 (drop 3 (bus_calls (emitted w (snd (initSensor dev h w))))) =
           [I2CWriteReg8 h 0x00 0x00, I2CWrite h 0x00])"
proof -
  from initSensor_shape [OF assms] obtain r1 r2 es where
    w1: "w1 = w @ [Printf MsgInit, I2CWriteReg8 h 0x01 0x0F, I2CRead h r1, I2CRead h r2]"
    and s: "snd (initSensor dev h w) =
         (if model_id = 0xEACC then w1 @ Printf (MsgSensorFound 0xEACC) # reset_events h @ es
          else w1 @ [Printf (MsgUnknownSensor (uint model_id))])"
    by blast
  have b: "bus_calls (emitted w w1) = [I2CWriteReg8 h 0x01 0x0F, I2CRead h r1, I2CRead h r2]"
    unfolding w1 by (simp add: bus_calls_def)
  have f: "model_id \<noteq> 0xEACC \<Longrightarrow> fst (initSensor dev h w) = -1"
    using initSensor_mismatch [OF assms] by simp
  have e: "bus_calls (emitted w (snd (initSensor dev h w))) =
      [I2CWriteReg8 h 0x01 0x0F, I2CRead h r1, I2CRead h r2]
      @ (if model_id = 0xEACC
         then [I2CWriteReg8 h 0x00 0x00, I2CWrite h 0x00, I2CWriteReg8 h 0x00 0x00, I2CWrite h 0x01]
              @ bus_calls es
         else [])"
    unfolding s w1 by (simp add: bus_calls_def reset_events_def)
  show ?thesis
    unfolding e b using f by simp
qed


lemma mock_id:
  "readReg16 (mock_dev 0xEACC k f) h IDENTIFICATION_MODEL_ID w =
     (0xEACC, w @ [I2CWriteReg8 h 0x01 0x0F, I2CRead h 0xEA, I2CRead h 0xCC])"
  by (simp add: readReg16_id_log mock_dev_def mock_answer_def)

text \<open>A device that identifies as \<open>0x1234\<close>, and one that identifies as \<open>0xEACC\<close>.\<close>

lemma mock_wrong_id:
  "readReg16 (mock_dev 0x1234 k f) h IDENTIFICATION_MODEL_ID w =
     (0x1234, w @ [I2CWriteReg8 h 0x01 0x0F, I2CRead h 0x12, I2CRead h 0x34])"
  by (simp add: readReg16_id_log mock_dev_def mock_answer_def)

theorem initSensor_checks_model_id_witness:
  "initSensor (mock_dev 0x1234 1 (steady 1 0 500)) 3 [] =
     (-1, [Printf MsgInit, I2CWriteReg8 3 0x01 0x0F, I2CRead 3 0x12, I2CRead 3 0x34,
           Printf (MsgUnknownSensor 0x1234)])
   \<and> bus_calls (emitted [] (snd (initSensor (mock_dev 0x1234 1 (steady 1 0 500)) 3 []))) =
       [I2CWriteReg8 3 0x01 0x0F, I2CRead 3 0x12, I2CRead 3 0x34]
   \<and> take 5 (bus_calls (emitted [] (snd (initSensor (mock_dev 0xEACC 1 (steady 1 0 500)) 3 [])))) =
       [I2CWriteReg8 3 0x01 0x0F, I2CRead 3 0xEA, I2CRead 3 0xCC,
        I2CWriteReg8 3 0x00 0x00, I2CWrite 3 0x00]"
proof -
  have a: "readReg16 (mock_dev 0x1234 1 (steady 1 0 500)) 3 IDENTIFICATION_MODEL_ID (printf MsgInit []) =
      (0x1234, [Printf MsgInit, I2CWriteReg8 3 0x01 0x0F, I2CRead 3 0x12, I2CRead 3 0x34])"
    by (simp add: mock_wrong_id printf_def)
  have b: "readReg16 (mock_dev 0xEACC 1 (steady 1 0 500)) 3 IDENTIFICATION_MODEL_ID (printf MsgInit []) =
      (0xEACC, [Printf MsgInit, I2CWriteReg8 3 0x01 0x0F, I2CRead 3 0xEA, I2CRead 3 0xCC])"
    by (simp add: mock_id printf_def)
  have c: "initSensor (mock_dev 0x1234 1 (steady 1 0 500)) 3 [] =
     (-1, [Printf MsgInit, I2CWriteReg8 3 0x01 0x0F, I2CRead 3 0x12, I2CRead 3 0x34,
           Printf (MsgUnknownSensor 0x1234)])"
    using initSensor_mismatch [OF a] by simp
  have d: "take 5 xs = take 3 xs @ take 2 (drop 3 xs)" for xs :: "event list"
    using take_add [of 3 2 xs] by simp
  show ?thesis
    using initSensor_checks_model_id [OF a] initSensor_checks_model_id [OF b] c
    by (simp add: d bus_calls_def)
qed

lemma fw_polls_Nil [simp]: "fw_polls [] = 0"
  by (simp add: fw_polls_def)

lemma fw_polls_Cons [simp]:
  "fw_polls (e # es) =
     (case e of I2CWriteReg8 _ h l \<Rightarrow> if h = 0x00 \<and> l = 0x10 then 1 else 0 | _ \<Rightarrow> 0) + fw_polls es"
  by (simp add: fw_polls_def split: event.split)

lemma bus_reads_Nil [simp]: "bus_reads [] = 0"
  by (simp add: bus_reads_def)

lemma bus_reads_Cons [simp]:
  "bus_reads (e # es) = (case e of I2CRead _ _ \<Rightarrow> 1 | _ \<Rightarrow> 0) + bus_reads es"
  by (simp add: bus_reads_def split: event.split)

lemma initSensor_polls_bounded:
  "fw_polls (emitted w (snd (initSensor dev h w))) \<le> 100"
proof -
  obtain model_id w1 where a: "readReg16 dev h IDENTIFICATION_MODEL_ID (printf MsgInit w) = (model_id, w1)"
    by force
  from initSensor_shape [OF a] obtain r1 r2 es where
    w1: "w1 = w @ [Printf MsgInit, I2CWriteReg8 h 0x01 0x0F, I2CRead h r1, I2CRead h r2]"
    and s: "snd (initSensor dev h w) =
         (if model_id = 0xEACC then w1 @ Printf (MsgSensorFound 0xEACC) # reset_events h @ es
          else w1 @ [Printf (MsgUnknownSensor (uint model_id))])"
    and le: "fw_polls es \<le> 100"
    by blast
  have "fw_polls (emitted w (snd (initSensor dev h w))) = (if model_id = 0xEACC then fw_polls es else 0)"
    unfolding s w1 by (simp add: fw_polls_def reset_events_def)
  with le show ?thesis by simp
qed

section \<open>Facts about the firmware wait\<close>

lemma poll_status_Suc:
  "poll_status dev h w (Suc j) =
     poll_status dev h (usleep 10000 (snd (readReg8 dev h FIRMWARE_SYSTEM_STATUS w))) j"
  by (simp add: poll_status_def)

lemma poll_log_extends:
  "\<exists>es. poll_log dev h w n = w @ es \<and> fw_polls es = n \<and> bus_reads es = n"
proof (induction n arbitrary: w)
  case 0
  show ?case by simp
next
  case (Suc n)
  let ?w1 = "usleep 10000 (snd (readReg8 dev h FIRMWARE_SYSTEM_STATUS w))"
  from Suc [of ?w1] obtain es where es: "poll_log dev h ?w1 n = ?w1 @ es" "fw_polls es = n" "bus_reads es = n"
    by blast
  have w1: "?w1 = w @ [I2CWriteReg8 h 0x00 0x10, I2CRead h (dev (w @ [I2CWriteReg8 h 0x00 0x10])), Usleep 10000]"
    by (simp add: readReg8_fw_log usleep_def)
  have "poll_log dev h w (Suc n) = ?w1 @ es"
    using es(1) by simp
  also have "\<dots> = w @ ([I2CWriteReg8 h 0x00 0x10, I2CRead h (dev (w @ [I2CWriteReg8 h 0x00 0x10])), Usleep 10000] @ es)"
    by (simp only: w1 append_assoc)
  finally show ?case
    using es(2,3) by (intro exI [of _ "[I2CWriteReg8 h 0x00 0x10, I2CRead h (dev (w @ [I2CWriteReg8 h 0x00 0x10])), Usleep 10000] @ es"]) simp
qed

lemma wait_firmware_never_ready:
  assumes "i \<le> 100"
    and "\<And>j. j < nat (100 - i) \<Longrightarrow> \<not> bit (poll_status dev h w j) 0"
  shows "wait_firmware dev h i w = (100, poll_log dev h w (nat (100 - i)))"
  using assms
proof (induction "nat (100 - i)" arbitrary: i w)
  case 0
  then have "i = 100" by simp
  then show ?case by (subst wait_firmware.simps) simp
next
  case (Suc n)
  let ?w1 = "usleep 10000 (snd (readReg8 dev h FIRMWARE_SYSTEM_STATUS w))"
  from Suc.hyps(2) have lt: "i < 100" and n: "n = nat (100 - (i + 1))" by simp_all
  have "\<not> bit (poll_status dev h w 0) 0"
    using Suc.prems(2) [of 0] Suc.hyps(2) by simp
  then have unset: "\<not> uint (fst (readReg8 dev h FIRMWARE_SYSTEM_STATUS w)) AND 0x01 \<noteq> 0"
    by (simp add: poll_status_def ready_bit)
  have step: "wait_firmware dev h i w = wait_firmware dev h (i + 1) ?w1"
    using lt unset by (subst wait_firmware.simps) (simp add: split_beta)
  have "wait_firmware dev h (i + 1) ?w1 = (100, poll_log dev h ?w1 (nat (100 - (i + 1))))"
  proof (rule Suc.hyps(1) [OF n])
    show "i + 1 \<le> 100" using lt by simp
    fix j assume "j < nat (100 - (i + 1))"
    then have "Suc j < nat (100 - i)" using lt by simp
    from Suc.prems(2) [OF this] show "\<not> bit (poll_status dev h ?w1 j) 0"
      by (simp add: poll_status_Suc)
  qed
  moreover have "nat (100 - i) = Suc (nat (100 - (i + 1)))" using lt by simp
  ultimately show ?case using step by simp
qed

lemma wait_firmware_ready_at:
  assumes "0 < k" and "i + int k \<le> 100"
    and "\<And>j. j < k - 1 \<Longrightarrow> \<not> bit (poll_status dev h w j) 0"
    and "bit (poll_status dev h w (k - 1)) 0"
  shows "wait_firmware dev h i w =
     (i + int k - 1,
      printf (MsgFirmwareLoaded (i + int k))
        (snd (readReg8 dev h FIRMWARE_SYSTEM_STATUS (poll_log dev h w (k - 1)))))"
  using assms
proof (induction k arbitrary: i w)
  case 0
  then show ?case by simp
next
  case (Suc m)
  from Suc.prems(2) have lt: "i < 100" by simp
  show ?case
  proof (cases m)
    case 0
    with Suc.prems(4) have "uint (fst (readReg8 dev h FIRMWARE_SYSTEM_STATUS w)) AND 0x01 \<noteq> 0"
      by (simp add: poll_status_def ready_bit)
    with lt 0 show ?thesis
      by (subst wait_firmware.simps) (simp add: split_beta)
  next
    case (Suc m')
    let ?w1 = "usleep 10000 (snd (readReg8 dev h FIRMWARE_SYSTEM_STATUS w))"
    have "\<not> bit (poll_status dev h w 0) 0"
      using Suc.prems(3) [of 0] Suc by simp
    then have unset: "\<not> uint (fst (readReg8 dev h FIRMWARE_SYSTEM_STATUS w)) AND 0x01 \<noteq> 0"
      by (simp add: poll_status_def ready_bit)
    have step: "wait_firmware dev h i w = wait_firmware dev h (i + 1) ?w1"
      using lt unset by (subst wait_firmware.simps) (simp add: split_beta)
    have "wait_firmware dev h (i + 1) ?w1 =
       (i + 1 + int m - 1,
        printf (MsgFirmwareLoaded (i + 1 + int m))
          (snd (readReg8 dev h FIRMWARE_SYSTEM_STATUS (poll_log dev h ?w1 (m - 1)))))"
    proof (rule Suc.IH)
      show "0 < m" using Suc by simp
      show "i + 1 + int m \<le> 100" using Suc.prems(2) by simp
      show "bit (poll_status dev h ?w1 (m - 1)) 0"
        using Suc.prems(4) Suc by (simp add: poll_status_Suc)
      fix j assume "j < m - 1"
      then have "Suc j < Suc m - 1" by simp
      from Suc.prems(3) [OF this] show "\<not> bit (poll_status dev h ?w1 j) 0"
        by (simp add: poll_status_Suc)
    qed
    with step Suc show ?thesis by (simp add: algebra_simps)
  qed
qed


lemma firmware_wait_log_shape:
  "\<exists>r1 r2. firmware_wait_log dev h w =
     w @ [Printf MsgInit, I2CWriteReg8 h 0x01 0x0F, I2CRead h r1, I2CRead h r2,
          Printf (MsgSensorFound 0xEACC)] @ reset_events h"
  by (simp add: firmware_wait_log_def readReg16_id_log printf_def Let_def)

lemma initSensor_after_wait:
  assumes "fst (readReg16 dev h IDENTIFICATION_MODEL_ID (printf MsgInit w)) = 0xEACC"
    and "wait_firmware dev h 0 (firmware_wait_log dev h w) = (i, w8)"
  shows "initSensor dev h w =
    (if i \<ge> 100 then (-1, w8 @ [Printf MsgFirmwareTimeout]) else (0, w8 @ config_events h))"
proof -
  have a: "readReg16 dev h IDENTIFICATION_MODEL_ID (printf MsgInit w) =
      (0xEACC, snd (readReg16 dev h IDENTIFICATION_MODEL_ID (printf MsgInit w)))"
    using assms(1) by (simp add: prod_eq_iff)
  show ?thesis
    by (rule initSensor_match [OF a assms(2) [unfolded firmware_wait_log_def]])
qed

lemma initSensor_never_ready:
  assumes "fst (readReg16 dev h IDENTIFICATION_MODEL_ID (printf MsgInit w)) = 0xEACC"
    and "\<And>j. j < 100 \<Longrightarrow> \<not> bit (poll_status dev h (firmware_wait_log dev h w) j) 0"
  shows "fst (initSensor dev h w) = -1"
    and "fw_polls (emitted w (snd (initSensor dev h w))) = 100"
    and "bus_reads (emitted w (snd (initSensor dev h w))) = 102"
proof -
  let ?W = "firmware_wait_log dev h w"
  have "(0::int) \<le> 100" by simp
  from wait_firmware_never_ready [OF this, of dev h ?W] assms(2)
  have wf: "wait_firmware dev h 0 ?W = (100, poll_log dev h ?W 100)" by simp
  obtain es where es: "poll_log dev h ?W 100 = ?W @ es" "fw_polls es = 100" "bus_reads es = 100"
    using poll_log_extends by blast
  obtain r1 r2 where W: "?W = w @ [Printf MsgInit, I2CWriteReg8 h 0x01 0x0F, I2CRead h r1, I2CRead h r2,
          Printf (MsgSensorFound 0xEACC)] @ reset_events h"
    using firmware_wait_log_shape by blast
  have i: "initSensor dev h w = (-1, poll_log dev h ?W 100 @ [Printf MsgFirmwareTimeout])"
    using initSensor_after_wait [OF assms(1) wf] by simp
  show "fst (initSensor dev h w) = -1" using i by simp
  have e: "emitted w (snd (initSensor dev h w)) =
      [Printf MsgInit, I2CWriteReg8 h 0x01 0x0F, I2CRead h r1, I2CRead h r2,
       Printf (MsgSensorFound 0xEACC)] @ reset_events h @ es @ [Printf MsgFirmwareTimeout]"
    unfolding i es(1) by (subst W) simp
  show "fw_polls (emitted w (snd (initSensor dev h w))) = 100"
    unfolding e by (simp add: es)
  show "bus_reads (emitted w (snd (initSensor dev h w))) = 102"
    unfolding e by (simp add: es)
qed

lemma initSensor_ready_at:
  assumes "fst (readReg16 dev h IDENTIFICATION_MODEL_ID (printf MsgInit w)) = 0xEACC"
    and "0 < k" and "k \<le> 100"
    and "\<And>j. j < k - 1 \<Longrightarrow> \<not> bit (poll_status dev h (firmware_wait_log dev h w) j) 0"
    and "bit (poll_status dev h (firmware_wait_log dev h w) (k - 1)) 0"
  shows "fst (initSensor dev h w) = 0"
    and "fw_polls (emitted w (snd (initSensor dev h w))) = k"
    and "bus_reads (emitted w (snd (initSensor dev h w))) = 2 + k"
proof -
  let ?W = "firmware_wait_log dev h w"
  let ?P = "poll_log dev h ?W (k - 1)"
  let ?r = "dev (?P @ [I2CWriteReg8 h 0x00 0x10])"
  have "0 + int k \<le> 100" using assms(3) by simp
  from wait_firmware_ready_at [OF assms(2) this assms(4,5)]
  have wf: "wait_firmware dev h 0 ?W =
      (int k - 1, ?P @ [I2CWriteReg8 h 0x00 0x10, I2CRead h ?r, Printf (MsgFirmwareLoaded (int k))])"
    by (simp add: readReg8_fw_log printf_def)
  obtain es where es: "?P = ?W @ es" "fw_polls es = k - 1" "bus_reads es = k - 1"
    using poll_log_extends by blast
  obtain r1 r2 where W: "?W = w @ [Printf MsgInit, I2CWriteReg8 h 0x01 0x0F, I2CRead h r1, I2CRead h r2,
          Printf (MsgSensorFound 0xEACC)] @ reset_events h"
    using firmware_wait_log_shape by blast
  have "\<not> int k - 1 \<ge> 100" using assms(3) by simp
  then have i: "initSensor dev h w =
      (0, (?P @ [I2CWriteReg8 h 0x00 0x10, I2CRead h ?r, Printf (MsgFirmwareLoaded (int k))])
          @ config_events h)"
    using initSensor_after_wait [OF assms(1) wf] by simp
  show "fst (initSensor dev h w) = 0" using i by simp
  have e: "\<exists>r. emitted w (snd (initSensor dev h w)) =
      [Printf MsgInit, I2CWriteReg8 h 0x01 0x0F, I2CRead h r1, I2CRead h r2,
       Printf (MsgSensorFound 0xEACC)] @ reset_events h @ es
      @ [I2CWriteReg8 h 0x00 0x10, I2CRead h r, Printf (MsgFirmwareLoaded (int k))]
      @ config_events h"
    unfolding i es(1) by (subst W) simp
  then obtain r where e': "emitted w (snd (initSensor dev h w)) =
      [Printf MsgInit, I2CWriteReg8 h 0x01 0x0F, I2CRead h r1, I2CRead h r2,
       Printf (MsgSensorFound 0xEACC)] @ reset_events h @ es
      @ [I2CWriteReg8 h 0x00 0x10, I2CRead h r, Printf (MsgFirmwareLoaded (int k))]
      @ config_events h" by blast
  show "fw_polls (emitted w (snd (initSensor dev h w))) = k"
    unfolding e' using assms(2) by (simp add: es)
  show "bus_reads (emitted w (snd (initSensor dev h w))) = 2 + k"
    unfolding e' using assms(2) by (simp add: es)
qed

section \<open>The firmware wait\<close>

text \<open>
  C5. Whatever the device does, \<^verbatim>\<open>initSensor\<close> polls the firmware status register at
  most 100 times. For every device that identifies as \<open>0xEACC\<close>: if the status bytes it
  returns have bit 0 unset in the first \<open>k - 1\<close> polls and set in the \<open>k\<close>-th,
  \<open>1 \<le> k \<le> 100\<close>, initialisation returns 0 after exactly \<open>k\<close> polls (for \<open>k = 100\<close>:
  unset in the first 99 polls, set in the 100th); if bit 0 is unset in all of the first
  100 polls, whatever the other bits are, initialisation returns \<open>-1\<close> after exactly 100
  polls (102 bus reads, two of them for the identification).
\<close>

theorem firmware_wait_at_most_100_polls:
  "fw_polls (emitted w (snd (initSensor dev h w))) \<le> 100
   \<and> (fst (readReg16 dev h IDENTIFICATION_MODEL_ID (printf MsgInit w)) = 0xEACC
        \<and> 0 < k \<and> k \<le> 100
        \<and> (\<forall>j<k - 1. \<not> bit (poll_status dev h (firmware_wait_log dev h w) j) 0)
        \<and> bit (poll_status dev h (firmware_wait_log dev h w) (k - 1)) 0 \<longrightarrow>
        fst (initSensor dev h w) = 0
        \<and> fw_polls (emitted w (snd (initSensor dev h w))) = k
        \<and> bus_reads (emitted w (snd (initSensor dev h w))) = 2 + k)
   \<and> (fst (readReg16 dev h IDENTIFICATION_MODEL_ID (printf MsgInit w)) = 0xEACC
        \<and> (\<forall>j<100. \<not> bit (poll_status dev h (firmware_wait_log dev h w) j) 0) \<longrightarrow>
        fst (initSensor dev h w) = -1
        \<and> fw_polls (emitted w (snd (initSensor dev h w))) = 100
        \<and> bus_reads (emitted w (snd (initSensor dev h w))) = 102)"
proof (intro conjI impI)
  show "fw_polls (emitted w (snd (initSensor dev h w))) \<le> 100"
    by (rule initSensor_polls_bounded)
next
  assume a: "fst (readReg16 dev h IDENTIFICATION_MODEL_ID (printf MsgInit w)) = 0xEACC
        \<and> 0 < k \<and> k \<le> 100
        \<and> (\<forall>j<k - 1. \<not> bit (poll_status dev h (firmware_wait_log dev h w) j) 0)
        \<and> bit (poll_status dev h (firmware_wait_log dev h w) (k - 1)) 0"
  then have id: "fst (readReg16 dev h IDENTIFICATION_MODEL_ID (printf MsgInit w)) = 0xEACC"
    and k: "0 < k" "k \<le> 100"
    and u: "\<And>j. j < k - 1 \<Longrightarrow> \<not> bit (poll_status dev h (firmware_wait_log dev h w) j) 0"
    and s: "bit (poll_status dev h (firmware_wait_log dev h w) (k - 1)) 0"
    by simp_all
  show "fst (initSensor dev h w) = 0"
    by (rule initSensor_ready_at (1) [OF id k u s])
  show "fw_polls (emitted w (snd (initSensor dev h w))) = k"
    by (rule initSensor_ready_at (2) [OF id k u s])
  show "bus_reads (emitted w (snd (initSensor dev h w))) = 2 + k"
    by (rule initSensor_ready_at (3) [OF id k u s])
next
  assume a: "fst (readReg16 dev h IDENTIFICATION_MODEL_ID (printf MsgInit w)) = 0xEACC
        \<and> (\<forall>j<100. \<not> bit (poll_status dev h (firmware_wait_log dev h w) j) 0)"
  then have id: "fst (readReg16 dev h IDENTIFICATION_MODEL_ID (printf MsgInit w)) = 0xEACC"
    and u: "\<And>j. j < 100 \<Longrightarrow> \<not> bit (poll_status dev h (firmware_wait_log dev h w) j) 0"
    by simp_all
  show "fst (initSensor dev h w) = -1"
    by (rule initSensor_never_ready (1) [OF id u])
  show "fw_polls (emitted w (snd (initSensor dev h w))) = 100"
    by (rule initSensor_never_ready (2) [OF id u])
  show "bus_reads (emitted w (snd (initSensor dev h w))) = 102"
    by (rule initSensor_never_ready (3) [OF id u])
qed

lemma poll_log_polls: "fw_polls (poll_log dev h w j) = fw_polls w + j"
proof -
  obtain es where "poll_log dev h w j = w @ es" "fw_polls es = j"
    using poll_log_extends by blast
  then show ?thesis by simp
qed

lemma poll_status_mock:
  "poll_status (mock_dev m k f) h w j = (if k \<noteq> 0 \<and> k \<le> Suc (fw_polls w + j) then 1 else 0)"
  by (simp add: poll_status_def mock_fw poll_log_polls)

lemma firmware_wait_log_mock:
  "firmware_wait_log (mock_dev 0xEACC k f) h w =
     w @ [Printf MsgInit, I2CWriteReg8 h 0x01 0x0F, I2CRead h 0xEA, I2CRead h 0xCC,
          Printf (MsgSensorFound 0xEACC)] @ reset_events h"
  by (simp add: firmware_wait_log_def mock_id printf_def)

lemma busy_id:
  "readReg16 busy_dev h IDENTIFICATION_MODEL_ID w =
     (0xEACC, w @ [I2CWriteReg8 h 0x01 0x0F, I2CRead h 0xEA, I2CRead h 0xCC])"
  by (simp add: readReg16_id_log busy_dev_def)

lemma poll_status_busy: "poll_status busy_dev h w j = 2"
  by (simp add: poll_status_def readReg8_fw_log busy_dev_def)

text \<open>
  The scripted sensor that reports bit 0 at the 100th poll, and the sensor that answers
  \<open>0x02\<close> for ever.
\<close>

theorem firmware_wait_at_most_100_polls_witness:
  "fst (readReg16 (mock_dev 0xEACC 100 (steady 1 0 500)) 3 IDENTIFICATION_MODEL_ID (printf MsgInit [])) = 0xEACC
   \<and> poll_status (mock_dev 0xEACC 100 (steady 1 0 500)) 3
         (firmware_wait_log (mock_dev 0xEACC 100 (steady 1 0 500)) 3 []) 0 = 0
   \<and> poll_status (mock_dev 0xEACC 100 (steady 1 0 500)) 3
         (firmware_wait_log (mock_dev 0xEACC 100 (steady 1 0 500)) 3 []) 98 = 0
   \<and> poll_status (mock_dev 0xEACC 100 (steady 1 0 500)) 3
         (firmware_wait_log (mock_dev 0xEACC 100 (steady 1 0 500)) 3 []) 99 = 1
   \<and> fst (initSensor (mock_dev 0xEACC 100 (steady 1 0 500)) 3 []) = 0
   \<and> fw_polls (snd (initSensor (mock_dev 0xEACC 100 (steady 1 0 500)) 3 [])) = 100
   \<and> fst (readReg16 busy_dev 3 IDENTIFICATION_MODEL_ID (printf MsgInit [])) = 0xEACC
   \<and> poll_status busy_dev 3 (firmware_wait_log busy_dev 3 []) 0 = 2
   \<and> poll_status busy_dev 3 (firmware_wait_log busy_dev 3 []) 99 = 2
   \<and> fst (initSensor busy_dev 3 []) = -1
   \<and> fw_polls (snd (initSensor busy_dev 3 [])) = 100
   \<and> bus_reads (snd (initSensor busy_dev 3 [])) = 102"
proof -
  let ?M = "mock_dev 0xEACC 100 (steady 1 0 500)"
  have a: "fst (readReg16 ?M 3 IDENTIFICATION_MODEL_ID (printf MsgInit [])) = 0xEACC"
    by (simp add: mock_id)
  have b: "\<forall>j<99. \<not> bit (poll_status ?M 3 (firmware_wait_log ?M 3 []) j) 0"
    by (simp add: poll_status_mock firmware_wait_log_mock)
  have c: "bit (poll_status ?M 3 (firmware_wait_log ?M 3 []) 99) 0"
    by (simp add: poll_status_mock firmware_wait_log_mock)
  have d: "fst (readReg16 busy_dev 3 IDENTIFICATION_MODEL_ID (printf MsgInit [])) = 0xEACC"
    by (simp add: busy_id)
  have e: "\<forall>j<100. \<not> bit (poll_status busy_dev 3 (firmware_wait_log busy_dev 3 []) j) 0"
    by (simp add: poll_status_busy)
  show ?thesis
    using firmware_wait_at_most_100_polls [where dev = ?M and h = 3 and w = "[]" and k = 100]
      firmware_wait_at_most_100_polls [where dev = busy_dev and h = 3 and w = "[]" and k = 100]
      a b c d e
    by (simp add: poll_status_busy poll_status_mock firmware_wait_log_mock)
qed

section \<open>Facts about the main loop on a scripted sensor\<close>

lemma distance_reads_Nil [simp]: "distance_reads [] = 0"
  by (simp add: distance_reads_def)

lemma distance_reads_Cons [simp]:
  "distance_reads (e # es) =
     (case e of I2CWriteReg8 _ h l \<Rightarrow> if h = 0x00 \<and> l = 0x96 then 1 else 0 | _ \<Rightarrow> 0) + distance_reads es"
  by (simp add: distance_reads_def split: event.split)

lemma distance_reads_append [simp]: "distance_reads (a @ b) = distance_reads a + distance_reads b"
  by (simp add: distance_reads_def)

lemma mock_gpio_f:
  "readReg8 (mock_dev m k f) h GPIO_TIO_HV_STATUS w =
     (word_of_int (fst (f (distance_reads w)) AND 0xFF),
      w @ [I2CWriteReg8 h 0x00 0x31, I2CRead h (fst (f (distance_reads w)))])"
  by (simp add: readReg8_log addr_event_def regs mock_dev_def mock_answer_def)

lemma mock_status_f:
  "readReg8 (mock_dev m k f) h RESULT_RANGE_STATUS w =
     (word_of_int (fst (snd (f (distance_reads w))) AND 0xFF),
      w @ [I2CWriteReg8 h 0x00 0x89, I2CRead h (fst (snd (f (distance_reads w))))])"
  by (simp add: readReg8_log addr_event_def regs mock_dev_def mock_answer_def)

lemma mock_distance_f:
  "readReg16 (mock_dev m k f) h RESULT_DISTANCE w =
     (word_of_int (push_bit 8 (drop_bit 8 (snd (snd (f (distance_reads w)))) AND 0xFF)
                   OR (snd (snd (f (distance_reads w))) AND 0xFF)),
      w @ [I2CWriteReg8 h 0x00 0x96,
           I2CRead h (drop_bit 8 (snd (snd (f (distance_reads w)))) AND 0xFF),
           I2CRead h (snd (snd (f (distance_reads w))) AND 0xFF)])"
  by (simp add: readReg16_log addr_event_def regs mock_dev_def mock_answer_def Let_def and.assoc
      del: push_bit_and)

lemma main_start_mock:
  "h \<noteq> -1 \<Longrightarrow> main_start (mock_dev 0xEACC 1 f) 0 h = Inr (init_state h (startup_log h))"
  by (simp add: main_start_def initSensor_def Let_def printf_def usleep_def init_state_def
     startRanging_def mock_simps wait_firmware.simps startup_log_def reset_events_def config_events_def)

lemma clear_log:
  "writeReg8 h SYSTEM_INTERRUPT_CLEAR 0x01 w = w @ [I2CWriteReg8 h 0x00 0x86, I2CWrite h 0x01]"
  by (simp add: writeReg8_log addr_event_def regs)

lemmas loop_eval = loop_body_def getDistance_def mock_gpio_f mock_status_f mock_distance_f
  clear_log scripted_def printDistance_def print_bars.simps printf_def
  usleep_def c_div_def c_mod_def wrap32_def Let_def

lemma main_loop_5:
  "main_loop dev 5 s = loop_body dev (loop_body dev (loop_body dev (loop_body dev (loop_body dev s))))"
proof -
  have "(5::nat) = Suc (Suc (Suc (Suc (Suc 0))))" by simp
  then show ?thesis by (simp only: main_loop.simps)
qed

lemma distance_reads_startup [simp]: "distance_reads (startup_log h) = 0"
  by (simp add: startup_log_def reset_events_def config_events_def)

lemma scenario_step_1:
  assumes "distance_reads w = 0"
  shows "loop_body scenario
      \<lparr>fd = 3, count = 0, errors = 0, sum_acc = 0, min_dist = 9999, max_dist = 0,
       world = w\<rparr> =
      \<lparr>fd = 3, count = 1, errors = 0, sum_acc = 50, min_dist = 50, max_dist = 50,
       world = w @
          [I2CWriteReg8 3 0x00 0x31, I2CRead 3 1, I2CWriteReg8 3 0x00 0x89, I2CRead 3 0,
           I2CWriteReg8 3 0x00 0x96, I2CRead 3 0, I2CRead 3 50,
           I2CWriteReg8 3 0x00 0x86, I2CWrite 3 0x01,
           Printf (MsgSample 1 50), Printf MsgBarOpen, Printf MsgVeryClose, Printf MsgNewline, Usleep 50000]\<rparr>"
    and "fst (getDistance scenario 3 w) = 50"
  using assms by (simp_all add: scenario_def loop_eval)

lemma scenario_step_2:
  assumes "distance_reads w = 1"
  shows "loop_body scenario
      \<lparr>fd = 3, count = 1, errors = 0, sum_acc = 50, min_dist = 50, max_dist = 50,
       world = w\<rparr> =
      \<lparr>fd = 3, count = 2, errors = 0, sum_acc = 300, min_dist = 50, max_dist = 250,
       world = w @
          [I2CWriteReg8 3 0x00 0x31, I2CRead 3 1, I2CWriteReg8 3 0x00 0x89, I2CRead 3 0,
           I2CWriteReg8 3 0x00 0x96, I2CRead 3 0, I2CRead 3 250,
           I2CWriteReg8 3 0x00 0x86, I2CWrite 3 0x01,
           Printf (MsgSample 2 250), Printf MsgBarOpen, Printf MsgBar, Printf MsgBar, Printf MsgClose, Printf MsgNewline, Usleep 50000]\<rparr>"
    and "fst (getDistance scenario 3 w) = 250"
  using assms by (simp_all add: scenario_def loop_eval)

lemma scenario_step_3:
  assumes "distance_reads w = 2"
  shows "loop_body scenario
      \<lparr>fd = 3, count = 2, errors = 0, sum_acc = 300, min_dist = 50, max_dist = 250,
       world = w\<rparr> =
      \<lparr>fd = 3, count = 3, errors = 0, sum_acc = 800, min_dist = 50, max_dist = 500,
       world = w @
          [I2CWriteReg8 3 0x00 0x31, I2CRead 3 1, I2CWriteReg8 3 0x00 0x89, I2CRead 3 0,
           I2CWriteReg8 3 0x00 0x96, I2CRead 3 1, I2CRead 3 244,
           I2CWriteReg8 3 0x00 0x86, I2CWrite 3 0x01,
           Printf (MsgSample 3 500), Printf MsgBarOpen, Printf MsgBar, Printf MsgBar, Printf MsgBar, Printf MsgBar, Printf MsgBar, Printf MsgNewline, Usleep 50000]\<rparr>"
    and "fst (getDistance scenario 3 w) = 500"
  using assms by (simp_all add: scenario_def loop_eval)

lemma scenario_step_4:
  assumes "distance_reads w = 3"
  shows "loop_body scenario
      \<lparr>fd = 3, count = 3, errors = 0, sum_acc = 800, min_dist = 50, max_dist = 500,
       world = w\<rparr> =
      \<lparr>fd = 3, count = 3, errors = 1, sum_acc = 800, min_dist = 50, max_dist = 500,
       world = w @
          [I2CWriteReg8 3 0x00 0x31, I2CRead 3 1, I2CWriteReg8 3 0x00 0x89, I2CRead 3 0,
           I2CWriteReg8 3 0x00 0x96, I2CRead 3 35, I2CRead 3 40,
           I2CWriteReg8 3 0x00 0x86, I2CWrite 3 0x01, Usleep 50000]\<rparr>"
    and "fst (getDistance scenario 3 w) = -1"
  using assms by (simp_all add: scenario_def loop_eval)

lemma scenario_step_5:
  assumes "distance_reads w = 4"
  shows "loop_body scenario
      \<lparr>fd = 3, count = 3, errors = 1, sum_acc = 800, min_dist = 50, max_dist = 500,
       world = w\<rparr> =
      \<lparr>fd = 3, count = 4, errors = 1, sum_acc = 1200, min_dist = 50, max_dist = 500,
       world = w @
          [I2CWriteReg8 3 0x00 0x31, I2CRead 3 1, I2CWriteReg8 3 0x00 0x89, I2CRead 3 0,
           I2CWriteReg8 3 0x00 0x96, I2CRead 3 1, I2CRead 3 144,
           I2CWriteReg8 3 0x00 0x86, I2CWrite 3 0x01,
           Printf (MsgSample 4 400), Printf MsgBarOpen, Printf MsgBar, Printf MsgBar, Printf MsgBar, Printf MsgBar, Printf MsgNewline, Usleep 50000]\<rparr>"
    and "fst (getDistance scenario 3 w) = 400"
  using assms by (simp_all add: scenario_def loop_eval)

lemma samples_5:
  "samples dev 5 s =
     (let s1 = loop_body dev s; s2 = loop_body dev s1; s3 = loop_body dev s2; s4 = loop_body dev s3
      in [fst (getDistance dev (fd s) (world s)), fst (getDistance dev (fd s1) (world s1)),
          fst (getDistance dev (fd s2) (world s2)), fst (getDistance dev (fd s3) (world s3)),
          fst (getDistance dev (fd s4) (world s4))])"
proof -
  have "(5::nat) = Suc (Suc (Suc (Suc (Suc 0))))" by simp
  then show ?thesis by (simp only: samples.simps Let_def)
qed

lemmas scenario_steps =
  scenario_step_1 scenario_step_2 scenario_step_3 scenario_step_4 scenario_step_5

lemma printed_Nil [simp]: "printed [] = []"
  by (simp add: printed_def)

lemma printed_Cons [simp]:
  "printed (e # es) = (case e of Printf m \<Rightarrow> [m] | _ \<Rightarrow> []) @ printed es"
  by (simp add: printed_def)

lemma printed_append [simp]: "printed (a @ b) = printed a @ printed b"
  by (simp add: printed_def)

section \<open>The end-to-end scenario\<close>

text \<open>
  C6. On the scenario sensor, with both set-up calls succeeding, \<^verbatim>\<open>main\<close> reaches its
  loop, and in five iterations \<^verbatim>\<open>getDistance\<close> returns 50, 250, 500, \<open>-1\<close> (the 9000 is
  out of range) and 400. The loop prints sample 1 (50) with the very-close tag, sample 2
  (250) with the close tag, sample 3 (500) and sample 4 (400) without a tag, and nothing
  for the discarded reading. At the end \<^verbatim>\<open>count\<close> is 4 and \<^verbatim>\<open>errors\<close> is 1.
\<close>

theorem end_to_end_scenario:
  "\<exists>s. main scenario 0 3 5 = Inr s
     \<and> samples scenario 5 (init_state 3 (startup_log 3)) = [50, 250, 500, -1, 400]
     \<and> count s = 4 \<and> errors s = 1 \<and> sum_acc s = 1200 \<and> min_dist s = 50 \<and> max_dist s = 500
     \<and> printed (emitted (startup_log 3) (world s)) =
         [MsgSample 1 50, MsgBarOpen, MsgVeryClose, MsgNewline,
          MsgSample 2 250, MsgBarOpen, MsgBar, MsgBar, MsgClose, MsgNewline,
          MsgSample 3 500, MsgBarOpen, MsgBar, MsgBar, MsgBar, MsgBar, MsgBar, MsgNewline,
          MsgSample 4 400, MsgBarOpen, MsgBar, MsgBar, MsgBar, MsgBar, MsgNewline]"
proof -
  have start: "main_start scenario 0 3 = Inr (init_state 3 (startup_log 3))"
    unfolding scenario_def by (rule main_start_mock) simp
  have s: "samples scenario 5 (init_state 3 (startup_log 3)) = [50, 250, 500, -1, 400]"
    unfolding samples_5 init_state_def by (simp add: scenario_steps Let_def)
  have l: "\<exists>es. main_loop scenario 5 (init_state 3 (startup_log 3)) =
      \<lparr>fd = 3, count = 4, errors = 1, sum_acc = 1200, min_dist = 50, max_dist = 500,
       world = startup_log 3 @ es\<rparr>
      \<and> printed es =
         [MsgSample 1 50, MsgBarOpen, MsgVeryClose, MsgNewline,
          MsgSample 2 250, MsgBarOpen, MsgBar, MsgBar, MsgClose, MsgNewline,
          MsgSample 3 500, MsgBarOpen, MsgBar, MsgBar, MsgBar, MsgBar, MsgBar, MsgNewline,
          MsgSample 4 400, MsgBarOpen, MsgBar, MsgBar, MsgBar, MsgBar, MsgNewline]"
    unfolding main_loop_5 init_state_def by (simp add: scenario_steps)
  then obtain es where
    "main_loop scenario 5 (init_state 3 (startup_log 3)) =
      \<lparr>fd = 3, count = 4, errors = 1, sum_acc = 1200, min_dist = 50, max_dist = 500,
       world = startup_log 3 @ es\<rparr>"
    and "printed es =
         [MsgSample 1 50, MsgBarOpen, MsgVeryClose, MsgNewline,
          MsgSample 2 250, MsgBarOpen, MsgBar, MsgBar, MsgClose, MsgNewline,
          MsgSample 3 500, MsgBarOpen, MsgBar, MsgBar, MsgBar, MsgBar, MsgBar, MsgNewline,
          MsgSample 4 400, MsgBarOpen, MsgBar, MsgBar, MsgBar, MsgBar, MsgNewline]"
    by blast
  with start s show ?thesis
    by (simp add: main_def)
qed

section \<open>Facts about the main loop\<close>

lemma wrap32_wrap32_add: "wrap32 (wrap32 a + b) = wrap32 (a + b)"
  by (simp add: wrap32_def algebra_simps mod_simps)

lemma wrap32_idem: "wrap32 (wrap32 a) = wrap32 a"
  using wrap32_wrap32_add [of a 0] by simp

lemma wrap32_id: "- (2 ^ 31) \<le> x \<Longrightarrow> x < 2 ^ 31 \<Longrightarrow> wrap32 x = x"
  by (simp add: wrap32_def)

lemma loop_body_fd [simp]: "fd (loop_body dev s) = fd s"
  by (simp add: loop_body_def Let_def split_beta)

lemma loop_body_count:
  "count (loop_body dev s) =
     (if fst (getDistance dev (fd s) (world s)) > 0 then wrap32 (count s + 1) else count s)"
  by (simp add: loop_body_def Let_def split_beta)

lemma loop_body_errors:
  "errors (loop_body dev s) =
     (if fst (getDistance dev (fd s) (world s)) > 0 then errors s else wrap32 (errors s + 1))"
  by (simp add: loop_body_def Let_def split_beta)

lemma loop_body_sum:
  "sum_acc (loop_body dev s) =
     (if fst (getDistance dev (fd s) (world s)) > 0
      then wrap32 (sum_acc s + fst (getDistance dev (fd s) (world s))) else sum_acc s)"
  by (simp add: loop_body_def Let_def split_beta)

lemma loop_body_min:
  "min_dist (loop_body dev s) =
     (if fst (getDistance dev (fd s) (world s)) > 0
      then min (fst (getDistance dev (fd s) (world s))) (min_dist s) else min_dist s)"
  by (simp add: loop_body_def Let_def split_beta min_def)

lemma loop_body_max:
  "max_dist (loop_body dev s) =
     (if fst (getDistance dev (fd s) (world s)) > 0
      then max (fst (getDistance dev (fd s) (world s))) (max_dist s) else max_dist s)"
  by (simp add: loop_body_def Let_def split_beta max_def)

lemma main_loop_count:
  "wrap32 (count s) = count s \<Longrightarrow>
   count (main_loop dev n s) = wrap32 (count s + int (length (accepted (samples dev n s))))"
proof (induction n arbitrary: s)
  case 0
  then show ?case by (simp add: accepted_def)
next
  case (Suc n)
  have "wrap32 (count (loop_body dev s)) = count (loop_body dev s)"
    using Suc.prems by (simp add: loop_body_count wrap32_idem)
  from Suc.IH [OF this] show ?case
    by (simp add: loop_body_count accepted_def wrap32_wrap32_add algebra_simps)
qed

lemma main_loop_errors:
  "wrap32 (errors s) = errors s \<Longrightarrow>
   errors (main_loop dev n s) = wrap32 (errors s + int (length (rejected (samples dev n s))))"
proof (induction n arbitrary: s)
  case 0
  then show ?case by (simp add: rejected_def)
next
  case (Suc n)
  have "wrap32 (errors (loop_body dev s)) = errors (loop_body dev s)"
    using Suc.prems by (simp add: loop_body_errors wrap32_idem)
  from Suc.IH [OF this] show ?case
    by (simp add: loop_body_errors rejected_def wrap32_wrap32_add algebra_simps)
qed

lemma main_loop_sum:
  "wrap32 (sum_acc s) = sum_acc s \<Longrightarrow>
   sum_acc (main_loop dev n s) = wrap32 (sum_acc s + sum_list (accepted (samples dev n s)))"
proof (induction n arbitrary: s)
  case 0
  then show ?case by (simp add: accepted_def)
next
  case (Suc n)
  let ?d = "fst (getDistance dev (fd s) (world s))"
  let ?rest = "sum_list (accepted (samples dev n (loop_body dev s)))"
  have "wrap32 (sum_acc (loop_body dev s)) = sum_acc (loop_body dev s)"
    using Suc.prems by (simp add: loop_body_sum wrap32_idem)
  from Suc.IH [OF this]
  have ih: "sum_acc (main_loop dev n (loop_body dev s)) = wrap32 (sum_acc (loop_body dev s) + ?rest)" .
  show ?case
  proof (cases "?d > 0")
    case True
    then have "sum_acc (main_loop dev (Suc n) s) = wrap32 (wrap32 (sum_acc s + ?d) + ?rest)"
      using ih by (simp add: loop_body_sum)
    also have "\<dots> = wrap32 (sum_acc s + (?d + ?rest))"
      by (simp only: wrap32_wrap32_add add.assoc)
    finally show ?thesis using True by (simp add: accepted_def)
  next
    case False
    then show ?thesis using ih by (simp add: loop_body_sum accepted_def)
  qed
qed

lemma main_loop_min:
  "min_dist (main_loop dev n s) = fold min (accepted (samples dev n s)) (min_dist s)"
  by (induction n arbitrary: s) (simp_all add: accepted_def loop_body_min)

lemma main_loop_max:
  "max_dist (main_loop dev n s) = fold max (accepted (samples dev n s)) (max_dist s)"
  by (induction n arbitrary: s) (simp_all add: accepted_def loop_body_max)

lemma fold_min_Min: "fold min xs (a::int) = Min (insert a (set xs))"
  using Min.set_eq_fold [of a xs] by simp

lemma fold_max_Max: "fold max xs (a::int) = Max (insert a (set xs))"
  using Max.set_eq_fold [of a xs] by simp

lemma getDistance_range:
  "fst (getDistance dev h w) = -1 \<or> (0 < fst (getDistance dev h w) \<and> fst (getDistance dev h w) < 8000)"
  by (simp add: getDistance_def Let_def split_beta)

lemma samples_range:
  "d \<in> set (accepted (samples dev n s)) \<Longrightarrow> 0 < d \<and> d < 8000"
proof (induction n arbitrary: s)
  case 0
  then show ?case by (simp add: accepted_def)
next
  case (Suc n)
  then show ?case
    using getDistance_range [of dev "fd s" "world s"]
    by (auto simp add: accepted_def split: if_splits)
qed

lemma samples_length [simp]: "length (samples dev n s) = n"
  by (induction n arbitrary: s) simp_all

lemma waiting_lines_Nil [simp]: "waiting_lines [] = []"
  by (simp add: waiting_lines_def)

lemma waiting_lines_Cons [simp]:
  "waiting_lines (e # es) = (case e of Printf (MsgWaiting k) \<Rightarrow> [k] | _ \<Rightarrow> []) @ waiting_lines es"
  by (simp add: waiting_lines_def)

lemma waiting_lines_append [simp]: "waiting_lines (a @ b) = waiting_lines a @ waiting_lines b"
  by (simp add: waiting_lines_def)

lemma waiting_lines_bars [simp]: "waiting_lines (replicate k (Printf MsgBar)) = []"
  by (induction k) simp_all

lemma distance_reads_bars [simp]: "distance_reads (replicate k (Printf MsgBar)) = 0"
  by (induction k) simp_all

lemma c_mod_nonneg: "0 \<le> a \<Longrightarrow> 0 < b \<Longrightarrow> c_mod a b = a mod b"
  by (simp add: c_mod_def c_div_nonneg minus_mult_div_eq_mod)

lemma getDistance_log:
  "\<exists>es. snd (getDistance dev h w) = w @ es \<and> waiting_lines es = []"
  by (simp add: getDistance_def readReg8_log readReg16_log writeReg8_log Let_def split_beta
      addr_event_def)

lemma printDistance_log:
  "\<exists>ps. printDistance d c w = w @ ps \<and> waiting_lines ps = [] \<and> distance_reads ps = 0"
  by (simp add: printDistance_def Let_def print_bars_replicate printf_def)

lemma loop_body_world:
  "\<exists>ps. world (loop_body dev s) = snd (getDistance dev (fd s) (world s)) @ ps
      \<and> distance_reads ps = 0
      \<and> waiting_lines ps =
          (if fst (getDistance dev (fd s) (world s)) > 0 then []
           else if c_mod (wrap32 (errors s + 1)) 20 = 0 then [wrap32 (errors s + 1)] else [])"
proof (cases "fst (getDistance dev (fd s) (world s)) > 0")
  case True
  obtain ps where ps: "printDistance (fst (getDistance dev (fd s) (world s))) (wrap32 (count s + 1))
      (snd (getDistance dev (fd s) (world s))) = snd (getDistance dev (fd s) (world s)) @ ps"
      "waiting_lines ps = []" "distance_reads ps = 0"
    using printDistance_log by blast
  have "world (loop_body dev s) = snd (getDistance dev (fd s) (world s)) @ (ps @ [Usleep 50000])"
    using True ps(1) by (simp add: loop_body_def Let_def split_beta usleep_def min_def max_def)
  with ps True show ?thesis by (intro exI [of _ "ps @ [Usleep 50000]"]) simp
next
  case False
  then show ?thesis
    by (simp add: loop_body_def Let_def split_beta usleep_def printf_def)
qed

lemma main_loop_Suc_right: "main_loop dev (Suc n) s = loop_body dev (main_loop dev n s)"
  by (induction n arbitrary: s) simp_all

lemma main_loop_fd [simp]: "fd (main_loop dev n s) = fd s"
  by (induction n arbitrary: s) simp_all

lemma samples_snoc:
  "samples dev (Suc n) s =
     samples dev n s @ [fst (getDistance dev (fd s) (world (main_loop dev n s)))]"
proof (induction n arbitrary: s)
  case 0
  show ?case by simp
next
  case (Suc n)
  have "samples dev (Suc (Suc n)) s =
      fst (getDistance dev (fd s) (world s)) # samples dev (Suc n) (loop_body dev s)"
    by simp
  also have "\<dots> = fst (getDistance dev (fd s) (world s)) #
      (samples dev n (loop_body dev s)
       @ [fst (getDistance dev (fd s) (world (main_loop dev n (loop_body dev s))))])"
    by (simp only: Suc.IH loop_body_fd)
  finally show ?case by simp
qed

lemma main_start_init:
  assumes "main_start dev a b = Inr s0"
  shows "\<exists>w. s0 = init_state b w"
  using assms
  by (auto simp add: main_start_def init_state_def Let_def split_beta split: if_splits)

lemma accepted_positive: "d \<in> set (accepted ds) \<Longrightarrow> 0 < d"
  by (simp add: accepted_def)

lemma length_le_sum_list:
  "(\<And>d. d \<in> set ds \<Longrightarrow> 0 < d) \<Longrightarrow> int (length ds) \<le> sum_list ds"
proof (induction ds)
  case Nil
  show ?case by simp
next
  case (Cons d ds)
  have "0 < d" using Cons.prems by simp
  moreover have "int (length ds) \<le> sum_list ds" using Cons by simp
  ultimately show ?case by simp
qed

lemma statistics_from_init:
  assumes "int (length (rejected (samples dev n (init_state h w)))) < 2 ^ 31"
    and "sum_list (accepted (samples dev n (init_state h w))) < 2 ^ 31"
  shows "count (main_loop dev n (init_state h w)) = int (length (accepted (samples dev n (init_state h w))))"
    and "errors (main_loop dev n (init_state h w)) = int (length (rejected (samples dev n (init_state h w))))"
    and "sum_acc (main_loop dev n (init_state h w)) = sum_list (accepted (samples dev n (init_state h w)))"
    and "min_dist (main_loop dev n (init_state h w)) =
          (if accepted (samples dev n (init_state h w)) = [] then 9999
           else Min (set (accepted (samples dev n (init_state h w)))))"
    and "max_dist (main_loop dev n (init_state h w)) =
          (if accepted (samples dev n (init_state h w)) = [] then 0
           else Max (set (accepted (samples dev n (init_state h w)))))"
proof -
  let ?s = "init_state h w"
  let ?acc = "accepted (samples dev n ?s)"
  have z: "wrap32 0 = 0" by (simp add: wrap32_def)
  have pos: "\<And>d. d \<in> set ?acc \<Longrightarrow> 0 < d" by (rule accepted_positive)
  have le: "int (length ?acc) \<le> sum_list ?acc" by (rule length_le_sum_list [OF pos])
  have nn: "0 \<le> sum_list ?acc" using le by simp
  show "count (main_loop dev n ?s) = int (length ?acc)"
    using main_loop_count [of ?s dev n] le assms(2) by (simp add: init_state_def z wrap32_id)
  show "errors (main_loop dev n ?s) = int (length (rejected (samples dev n ?s)))"
    using main_loop_errors [of ?s dev n] assms(1) by (simp add: init_state_def z wrap32_id)
  show "sum_acc (main_loop dev n ?s) = sum_list ?acc"
    using main_loop_sum [of ?s dev n] nn assms(2) by (simp add: init_state_def z wrap32_id)
  show "min_dist (main_loop dev n ?s) = (if ?acc = [] then 9999 else Min (set ?acc))"
  proof (cases "?acc = []")
    case True
    then show ?thesis by (simp add: main_loop_min init_state_def)
  next
    case False
    then have "Min (set ?acc) \<in> set ?acc" by (intro Min_in) simp_all
    then have "Min (set ?acc) < 8000" using samples_range by blast
    then have "min 9999 (Min (set ?acc)) = Min (set ?acc)" by simp
    with False show ?thesis
      by (simp add: main_loop_min fold_min_Min init_state_def)
  qed
  show "max_dist (main_loop dev n ?s) = (if ?acc = [] then 0 else Max (set ?acc))"
  proof (cases "?acc = []")
    case True
    then show ?thesis by (simp add: main_loop_max init_state_def)
  next
    case False
    then have "Max (set ?acc) \<in> set ?acc" by (intro Max_in) simp_all
    then have "0 < Max (set ?acc)" using pos by blast
    then have "max 0 (Max (set ?acc)) = Max (set ?acc)" by simp
    with False show ?thesis
      by (simp add: main_loop_max fold_max_Max init_state_def)
  qed
qed

section \<open>The statistics of the main loop\<close>

text \<open>
  C10, as the code has it. Let \<^verbatim>\<open>main\<close> reach its loop, and let \<open>ds\<close> be the values
  \<^verbatim>\<open>getDistance\<close> returned in the first \<open>n\<close> iterations. As long as the number of
  rejected polls and the sum of the accepted distances are below \<open>2^31\<close>, after these
  iterations \<^verbatim>\<open>count\<close> is the number of accepted samples, \<^verbatim>\<open>errors\<close> the number of
  rejected polls, \<^verbatim>\<open>sum\<close> the sum of the accepted distances, \<^verbatim>\<open>min_dist\<close> their
  minimum (9999 when there is none) and \<^verbatim>\<open>max_dist\<close> their maximum (0 when there is
  none). Only \<open>loop_body\<close> changes these variables: \<^verbatim>\<open>getDistance\<close> and
  \<^verbatim>\<open>printDistance\<close> work on the log alone.
\<close>

theorem main_loop_statistics:
  assumes "main_start dev a b = Inr s0"
    and "int (length (rejected (samples dev n s0))) < 2 ^ 31"
    and "sum_list (accepted (samples dev n s0)) < 2 ^ 31"
  shows "main dev a b n = Inr (main_loop dev n s0)
     \<and> count (main_loop dev n s0) = int (length (accepted (samples dev n s0)))
     \<and> errors (main_loop dev n s0) = int (length (rejected (samples dev n s0)))
     \<and> sum_acc (main_loop dev n s0) = sum_list (accepted (samples dev n s0))
     \<and> min_dist (main_loop dev n s0) =
          (if accepted (samples dev n s0) = [] then 9999 else Min (set (accepted (samples dev n s0))))
     \<and> max_dist (main_loop dev n s0) =
          (if accepted (samples dev n s0) = [] then 0 else Max (set (accepted (samples dev n s0))))"
proof -
  from main_start_init [OF assms(1)] obtain w where s0: "s0 = init_state b w" by blast
  have "main dev a b n = Inr (main_loop dev n s0)"
    using assms(1) by (simp add: main_def)
  with statistics_from_init [OF assms(2,3) [unfolded s0]] show ?thesis
    unfolding s0 by simp
qed

lemma scenario_start: "main_start scenario 0 3 = Inr (init_state 3 (startup_log 3))"
  unfolding scenario_def by (rule main_start_mock) simp

lemma scenario_samples: "samples scenario 5 (init_state 3 (startup_log 3)) = [50, 250, 500, -1, 400]"
  unfolding samples_5 init_state_def by (simp add: scenario_steps Let_def)

text \<open>The five iterations of the end-to-end scenario.\<close>

theorem main_loop_statistics_witness:
  "main_start scenario 0 3 = Inr (init_state 3 (startup_log 3))
   \<and> int (length (rejected (samples scenario 5 (init_state 3 (startup_log 3))))) < 2 ^ 31
   \<and> sum_list (accepted (samples scenario 5 (init_state 3 (startup_log 3)))) < 2 ^ 31
   \<and> count (main_loop scenario 5 (init_state 3 (startup_log 3))) = 4
   \<and> errors (main_loop scenario 5 (init_state 3 (startup_log 3))) = 1
   \<and> sum_acc (main_loop scenario 5 (init_state 3 (startup_log 3))) = 1200
   \<and> min_dist (main_loop scenario 5 (init_state 3 (startup_log 3))) = 50
   \<and> max_dist (main_loop scenario 5 (init_state 3 (startup_log 3))) = 500"
proof -
  have a: "int (length (rejected (samples scenario 5 (init_state 3 (startup_log 3))))) < 2 ^ 31"
    by (simp add: scenario_samples rejected_def)
  have b: "sum_list (accepted (samples scenario 5 (init_state 3 (startup_log 3)))) < 2 ^ 31"
    by (simp add: scenario_samples accepted_def)
  show ?thesis
    using main_loop_statistics [OF scenario_start a b] a b scenario_start
    by (simp add: scenario_samples accepted_def rejected_def)
qed

lemma getDistance_far:
  "fst (getDistance far_dev h w) = 7999"
  by (simp add: far_dev_def getDistance_def mock_gpio mock_status mock_distance)

lemma samples_far: "samples far_dev n s = replicate n 7999"
  by (induction n arbitrary: s) (simp_all add: getDistance_far)

lemma far_start: "main_start far_dev 0 3 = Inr (init_state 3 (startup_log 3))"
  unfolding far_dev_def by (rule main_start_mock) simp

text \<open>
  C10 as stated holds at every iteration. A 32-bit \<^verbatim>\<open>int\<close> cannot follow the sum for
  ever: after 268470 accepted readings of 7999 mm (under four hours at 20 Hz) the sum of
  the accepted distances is 2147491530, above \<open>2^31 - 1\<close>, and \<^verbatim>\<open>sum\<close> holds another
  value.
\<close>

theorem sum_acc_overflows:
  "main_start far_dev 0 3 = Inr (init_state 3 (startup_log 3))
   \<and> sum_list (accepted (samples far_dev 268470 (init_state 3 (startup_log 3)))) = 2147491530
   \<and> sum_acc (main_loop far_dev 268470 (init_state 3 (startup_log 3))) = - 2147475766
   \<and> sum_acc (main_loop far_dev 268470 (init_state 3 (startup_log 3)))
       \<noteq> sum_list (accepted (samples far_dev 268470 (init_state 3 (startup_log 3))))"
proof -
  have acc: "accepted (replicate n 7999) = replicate n 7999" for n
    by (simp add: accepted_def)
  have z: "wrap32 (sum_acc (init_state 3 (startup_log 3))) = sum_acc (init_state 3 (startup_log 3))"
    by (simp add: init_state_def wrap32_def)
  have s: "sum_list (accepted (samples far_dev 268470 (init_state 3 (startup_log 3)))) = 2147491530"
    by (simp add: samples_far acc sum_list_replicate)
  have "sum_acc (main_loop far_dev 268470 (init_state 3 (startup_log 3))) = wrap32 2147491530"
    unfolding main_loop_sum [OF z] s by (simp add: init_state_def)
  then have w: "sum_acc (main_loop far_dev 268470 (init_state 3 (startup_log 3))) = - 2147475766"
    by (simp add: wrap32_def)
  show ?thesis
    unfolding w s using far_start by simp
qed

lemma warning_from_init:
  assumes "int (length (rejected (samples dev (Suc n) (init_state h w)))) < 2 ^ 31"
  shows "waiting_lines (emitted (world (main_loop dev n (init_state h w)))
                               (world (main_loop dev (Suc n) (init_state h w)))) =
     (if \<not> last (samples dev (Suc n) (init_state h w)) > 0
         \<and> 20 dvd length (rejected (samples dev (Suc n) (init_state h w)))
      then [int (length (rejected (samples dev (Suc n) (init_state h w))))] else [])"
proof -
  let ?S = "init_state h w"
  let ?sn = "main_loop dev n ?S"
  let ?d = "fst (getDistance dev (fd ?sn) (world ?sn))"
  have fd: "fd ?sn = fd ?S" by simp
  have snoc: "samples dev (Suc n) ?S = samples dev n ?S @ [?d]"
    unfolding samples_snoc fd ..
  have len: "length (rejected (samples dev n ?S)) \<le> length (rejected (samples dev (Suc n) ?S))"
    unfolding snoc by (simp add: rejected_def)
  have z: "wrap32 (errors ?S) = errors ?S" by (simp add: init_state_def wrap32_def)
  have e: "errors ?sn = int (length (rejected (samples dev n ?S)))"
    using main_loop_errors [OF z, of dev n] len assms
    by (simp add: init_state_def wrap32_id)
  obtain es where es: "snd (getDistance dev (fd ?sn) (world ?sn)) = world ?sn @ es"
      "waiting_lines es = []"
    using getDistance_log by blast
  obtain ps where ps: "world (loop_body dev ?sn) = snd (getDistance dev (fd ?sn) (world ?sn)) @ ps"
      "waiting_lines ps =
          (if ?d > 0 then []
           else if c_mod (wrap32 (errors ?sn + 1)) 20 = 0 then [wrap32 (errors ?sn + 1)] else [])"
    using loop_body_world by blast
  have em: "waiting_lines (emitted (world ?sn) (world (main_loop dev (Suc n) ?S))) = waiting_lines ps"
    unfolding main_loop_Suc_right ps(1) es(1) by (simp add: es(2))
  define ds where "ds = samples dev (Suc n) ?S"
  have l: "last ds = ?d"
    unfolding ds_def snoc by simp
  have r: "int (length (rejected ds)) = (if ?d > 0 then errors ?sn else errors ?sn + 1)"
    unfolding ds_def snoc e by (simp add: rejected_def)
  have b: "int (length (rejected ds)) < 2 ^ 31"
    unfolding ds_def by (rule assms)
  have "waiting_lines ps =
     (if \<not> last ds > 0 \<and> 20 dvd length (rejected ds) then [int (length (rejected ds))] else [])"
  proof (cases "?d > 0")
    case True
    then show ?thesis unfolding ps(2) l by simp
  next
    case False
    let ?k = "int (length (rejected ds))"
    from False r have k: "errors ?sn + 1 = ?k" by simp
    have w: "wrap32 ?k = ?k"
      using b by (simp add: wrap32_id)
    have "c_mod ?k 20 = ?k mod 20" by (rule c_mod_nonneg) simp_all
    moreover have "(?k mod 20 = 0) = (20 dvd length (rejected ds))"
    proof -
      have "(?k mod 20 = 0) = (20 dvd ?k)" by (simp add: dvd_eq_mod_eq_0)
      also have "\<dots> = (int 20 dvd ?k)" by simp
      also have "\<dots> = (20 dvd length (rejected ds))" by (simp only: of_nat_dvd_iff)
      finally show ?thesis .
    qed
    ultimately have "(c_mod ?k 20 = 0) = (20 dvd length (rejected ds))"
      by simp
    with False show ?thesis
      unfolding ps(2) l k w by simp
  qed
  then show ?thesis
    unfolding em ds_def .
qed

lemma getDistance_one_hit:
  "fst (getDistance one_hit_dev h w) = (if distance_reads w = 19 then 500 else -1)"
  "distance_reads (snd (getDistance one_hit_dev h w)) = Suc (distance_reads w)"
  by (simp_all add: one_hit_dev_def getDistance_def mock_gpio_f mock_status_f mock_distance_f
      clear_log one_hit_def)

lemma loop_body_one_hit:
  "distance_reads (world (loop_body one_hit_dev s)) = Suc (distance_reads (world s))"
proof -
  obtain ps where "world (loop_body one_hit_dev s) = snd (getDistance one_hit_dev (fd s) (world s)) @ ps"
    and "distance_reads ps = 0"
    using loop_body_world by blast
  then show ?thesis by (simp add: getDistance_one_hit)
qed

lemma upt_0_Suc: "[0..<Suc n] = 0 # map Suc [0..<n]"
  by (simp only: map_Suc_upt upt_conv_Cons [OF zero_less_Suc])

lemma samples_one_hit:
  "samples one_hit_dev n s =
     map (\<lambda>i. if distance_reads (world s) + i = 19 then 500 else -1) [0..<n]"
proof (induction n arbitrary: s)
  case 0
  show ?case by simp
next
  case (Suc n)
  show ?case
    unfolding upt_0_Suc
    by (simp add: Suc.IH getDistance_one_hit loop_body_one_hit comp_def del: upt_Suc)
qed

lemma one_hit_start: "main_start one_hit_dev 0 3 = Inr (init_state 3 (startup_log 3))"
  unfolding one_hit_dev_def by (rule main_start_mock) simp

lemma one_hit_samples_21:
  "samples one_hit_dev 21 (init_state 3 (startup_log 3)) = replicate 19 (-1) @ [500, -1]"
proof -
  have "map (\<lambda>i. if i = 19 then 500 else - 1) [0..<21] = replicate 19 (- 1) @ [500, - 1 :: int]"
    by code_simp
  then show ?thesis
    by (simp add: samples_one_hit init_state_def)
qed

section \<open>The waiting line\<close>

text \<open>
  C7, as the code has it. Let \<^verbatim>\<open>main\<close> reach its loop. Iteration \<open>n + 1\<close> prints a
  waiting line exactly when its poll is rejected and the number of rejected polls since
  the start of the loop, this one included, is a multiple of 20; the line carries that
  number. Accepted samples in between do not reset the count. (The number of rejected
  polls is taken to be below \<open>2^31\<close>.)
\<close>

theorem warning_every_20_invalid_polls_in_total:
  assumes "main_start dev a b = Inr s0"
    and "int (length (rejected (samples dev (Suc n) s0))) < 2 ^ 31"
  shows "waiting_lines (emitted (world (main_loop dev n s0)) (world (main_loop dev (Suc n) s0))) =
     (if \<not> last (samples dev (Suc n) s0) > 0 \<and> 20 dvd length (rejected (samples dev (Suc n) s0))
      then [int (length (rejected (samples dev (Suc n) s0)))] else [])"
proof -
  from main_start_init [OF assms(1)] obtain w where s0: "s0 = init_state b w" by blast
  show ?thesis
    unfolding s0 by (rule warning_from_init [OF assms(2) [unfolded s0]])
qed

text \<open>
  C7 as stated ties the line to a run of 20 consecutive invalid polls. After 19 rejected
  polls, one accepted sample and one more rejected poll, iteration 21 prints the waiting
  line although the run of invalid polls it ends has length 1.
\<close>

theorem warning_ignores_consecutive_runs:
  "main_start one_hit_dev 0 3 = Inr (init_state 3 (startup_log 3))
   \<and> samples one_hit_dev 21 (init_state 3 (startup_log 3)) = replicate 19 (-1) @ [500, -1]
   \<and> trailing_invalid (samples one_hit_dev 21 (init_state 3 (startup_log 3))) = 1
   \<and> waiting_lines (emitted (world (main_loop one_hit_dev 20 (init_state 3 (startup_log 3))))
                             (world (main_loop one_hit_dev 21 (init_state 3 (startup_log 3))))) = [20]"
proof -
  have s: "samples one_hit_dev (Suc 20) (init_state 3 (startup_log 3)) = replicate 19 (-1) @ [500, -1]"
    using one_hit_samples_21 by simp
  have r: "length (rejected (replicate 19 (-1) @ [500, -1 :: int])) = 20"
    by (simp add: rejected_def)
  have b: "int (length (rejected (samples one_hit_dev (Suc 20) (init_state 3 (startup_log 3))))) < 2 ^ 31"
    unfolding s r by simp
  have "waiting_lines (emitted (world (main_loop one_hit_dev 20 (init_state 3 (startup_log 3))))
                             (world (main_loop one_hit_dev (Suc 20) (init_state 3 (startup_log 3))))) = [20]"
    unfolding warning_from_init [OF b] s r by simp
  moreover have "Suc 20 = 21" by simp
  moreover have "trailing_invalid (replicate 19 (-1) @ [500, -1 :: int]) = 1"
    by (simp add: trailing_invalid_def)
  ultimately show ?thesis
    using one_hit_start one_hit_samples_21 by simp
qed

text \<open>
  The same sensor: iteration 21 brings the rejected polls to 20 and prints the line,
  iteration 20 (the accepted sample) prints none.
\<close>

theorem warning_every_20_invalid_polls_in_total_witness:
  "main_start one_hit_dev 0 3 = Inr (init_state 3 (startup_log 3))
   \<and> int (length (rejected (samples one_hit_dev (Suc 20) (init_state 3 (startup_log 3))))) < 2 ^ 31
   \<and> length (rejected (samples one_hit_dev (Suc 20) (init_state 3 (startup_log 3)))) = 20
   \<and> waiting_lines (emitted (world (main_loop one_hit_dev 20 (init_state 3 (startup_log 3))))
                             (world (main_loop one_hit_dev (Suc 20) (init_state 3 (startup_log 3))))) = [20]
   \<and> int (length (rejected (samples one_hit_dev (Suc 19) (init_state 3 (startup_log 3))))) < 2 ^ 31
   \<and> waiting_lines (emitted (world (main_loop one_hit_dev 19 (init_state 3 (startup_log 3))))
                             (world (main_loop one_hit_dev (Suc 19) (init_state 3 (startup_log 3))))) = []"
proof -
  have s: "samples one_hit_dev (Suc 20) (init_state 3 (startup_log 3)) = replicate 19 (-1) @ [500, -1]"
    using one_hit_samples_21 by simp
  have "map (\<lambda>i. if i = 19 then 500 else - 1) [0..<20] = replicate 19 (- 1) @ [500 :: int]"
    by code_simp
  then have t: "samples one_hit_dev (Suc 19) (init_state 3 (startup_log 3)) = replicate 19 (-1) @ [500]"
    by (simp add: samples_one_hit init_state_def)
  have r: "length (rejected (replicate 19 (-1) @ [500, -1 :: int])) = 20"
    by (simp add: rejected_def)
  have b: "int (length (rejected (samples one_hit_dev (Suc 20) (init_state 3 (startup_log 3))))) < 2 ^ 31"
    unfolding s r by simp
  have c: "int (length (rejected (samples one_hit_dev (Suc 19) (init_state 3 (startup_log 3))))) < 2 ^ 31"
    unfolding t by (simp add: rejected_def)
  show ?thesis
    using warning_every_20_invalid_polls_in_total [OF one_hit_start b]
      warning_every_20_invalid_polls_in_total [OF one_hit_start c] one_hit_start b c
    unfolding s t r by simp
qed

end
